theory Spec2Isabelle
  imports Complex_Main "HOL-Library.Word" "HOL-Library.Signed_Division"
begin

unbundle bit_operations_syntax

section \<open>NeuroSync: the decision logic of revisaoresidencia.c\<close>

text \<open>
  The program is a polling loop (\<open>main\<close>) that calls one mode handler per iteration, and
  an interrupt handler (\<open>button_callback\<close>) that runs on falling button edges. Both work
  on global variables. The model keeps the globals in one record, passes it through every
  handler and returns it updated.

  Number types. \<open>uint8_t\<close> and \<open>uint32_t\<close> are \<open>8 word\<close> and \<open>32 word\<close>: \<open>+\<close> and \<open>-\<close>
  wrap, \<open>div\<close>, \<open>mod\<close> and the comparisons are unsigned, as in C. \<open>menu_index\<close> and
  \<open>current_param\<close> are C \<open>int\<close>s that stay between 0 and 4; they are \<open>int\<close>, and \<open>%\<close> is
  the truncating \<open>smod\<close>. The \<open>float\<close> variables are \<open>real\<close>: the thresholds only ever
  hold multiples of 0.5 between 0.5 and 100, on which binary floating point addition,
  subtraction and comparison are exact (lemma \<open>limiares_na_grade\<close> below proves the
  multiples); sensor readings are only compared; the sums of the statistics and their
  quotients are rounded by the hardware, which the model does not reproduce.

  What the hardware supplies during one call is an \<open>entrada\<close>: the two sensor levels (the
  results of \<open>obter_nivel_atencao\<close> and \<open>obter_nivel_relaxamento\<close>, which depend on the
  ADC and on \<open>rand\<close>), the pin levels returned by \<open>gpio_get\<close>, and the values returned by
  \<open>time_us_32()\<close>. The timer is read at several places of one handler and may have
  advanced in between, so a reading is looked up by the source line of its call.
  Display, LED matrix and buzzer output is not modelled, nor are the four band powers of
  \<open>simular_ondas_cerebrais\<close>, which nothing else reads.
\<close>

type_synonym u8 = "8 word"
type_synonym u32 = "32 word"

subsection \<open>Constants\<close>

definition BUTTON_NEXT :: u32 where "BUTTON_NEXT = 5"
definition BUTTON_BACK :: u32 where "BUTTON_BACK = 6"
definition BUTTON_SET :: u32 where "BUTTON_SET = 22"
definition NUM_PIXELS :: int where "NUM_PIXELS = 25"
definition DEBOUNCE_DELAY_MS :: u32 where "DEBOUNCE_DELAY_MS = 200"

text \<open>\<open>GPIO_IRQ_EDGE_FALL\<close> comes from the Pico SDK headers (\<open>hardware/gpio.h\<close>), where
  it is the bit \<open>0x4\<close>.\<close>

definition GPIO_IRQ_EDGE_FALL :: u32 where "GPIO_IRQ_EDGE_FALL = 4"

subsection \<open>Global variables\<close>

record EstadoCognitivo =
  atencao :: real
  relaxamento :: real

record Estatisticas =
  soma_atencao :: real
  soma_relaxamento :: real
  max_atencao :: real
  max_relaxamento :: real
  amostras :: u32
  tempo_inicio :: u32
  tempo_ultimo_treino :: u32
  sessoes_concluidas :: u8

record DadosTreinamento =
  nivel_atual :: u8
  nivel_maximo :: u8
  duracao :: u32
  objetivo :: u8
  status :: u8
  inicio :: u32
  pontuacao :: u32

record sistema =
  menu_index :: int
  in_set_mode :: bool
  current_param :: int
  last_button_time :: u32
  estado_atual :: EstadoCognitivo
  limiar_atencao_baixo :: real
  limiar_atencao_alto :: real
  limiar_relaxamento_baixo :: real
  limiar_relaxamento_alto :: real
  stats :: Estatisticas
  treinamento :: DadosTreinamento

record entrada =
  nivel_atencao :: real
  nivel_relaxamento :: real
  gpio_get :: "u32 \<Rightarrow> bool"
  time_us_32 :: "nat \<Rightarrow> u32"

text \<open>The initialisers of the globals, and line 1148 of \<open>main\<close>, which stamps
  \<open>stats.tempo_inicio\<close> with the timer reading \<open>us\<close> at boot.\<close>

definition estado_inicial :: "u32 \<Rightarrow> sistema" where
  "estado_inicial us =
     \<lparr> menu_index = 0, in_set_mode = False, current_param = 0, last_button_time = 0,
       estado_atual = \<lparr> atencao = 0, relaxamento = 0 \<rparr>,
       limiar_atencao_baixo = 30, limiar_atencao_alto = 70,
       limiar_relaxamento_baixo = 3, limiar_relaxamento_alto = 7,
       stats = \<lparr> soma_atencao = 0, soma_relaxamento = 0, max_atencao = 0,
                 max_relaxamento = 0, amostras = 0, tempo_inicio = us div 1000000,
                 tempo_ultimo_treino = 0, sessoes_concluidas = 0 \<rparr>,
       treinamento = \<lparr> nivel_atual = 0, nivel_maximo = 0, duracao = 0, objetivo = 0,
                       status = 0, inicio = 0, pontuacao = 0 \<rparr> \<rparr>"

subsection \<open>The classifier (lines 394-418)\<close>

definition determinar_estado_cognitivo :: "sistema \<Rightarrow> EstadoCognitivo \<Rightarrow> int" where
  "determinar_estado_cognitivo s estado =
     (if atencao estado \<ge> limiar_atencao_alto s
         \<and> relaxamento estado \<ge> limiar_relaxamento_alto s then 4
      else if atencao estado \<ge> limiar_atencao_alto s
         \<and> relaxamento estado < limiar_relaxamento_baixo s then 5
      else if atencao estado \<ge> limiar_atencao_alto s then 2
      else if atencao estado < limiar_atencao_baixo s then 0
      else if relaxamento estado \<ge> limiar_relaxamento_alto s then 3
      else 1)"

text \<open>The specification's reading of the classifier: six labels, and a list of rules of
  which the first one whose condition holds gives the label. \<open>codigo\<close> is the numbering
  of the labels in the comment at lines 395-403.\<close>

datatype State = Distracted | Normal | Concentrated | DeepRelaxation | Flow | Anxious

fun codigo :: "State \<Rightarrow> int" where
  "codigo Distracted = 0"
| "codigo Normal = 1"
| "codigo Concentrated = 2"
| "codigo DeepRelaxation = 3"
| "codigo Flow = 4"
| "codigo Anxious = 5"

fun first_match :: "(bool \<times> 'a) list \<Rightarrow> 'a \<Rightarrow> 'a" where
  "first_match [] d = d"
| "first_match ((c, x) # rs) d = (if c then x else first_match rs d)"

definition classify_spec :: "real \<Rightarrow> real \<Rightarrow> real \<Rightarrow> real \<Rightarrow> real \<Rightarrow> real \<Rightarrow> State" where
  "classify_spec attention relaxation attention_low attention_high relaxation_low relaxation_high =
     first_match
       [(attention \<ge> attention_high \<and> relaxation \<ge> relaxation_high, Flow),
        (attention \<ge> attention_high \<and> relaxation < relaxation_low, Anxious),
        (attention \<ge> attention_high, Concentrated),
        (attention < attention_low, Distracted),
        (relaxation \<ge> relaxation_high, DeepRelaxation)]
       Normal"

subsection \<open>The threshold adjustments of \<open>executar_modo_configuracao\<close> (lines 621-702)\<close>

text \<open>The body of the \<open>switch\<close> at lines 632-663 (NEXT pressed) and of the one at lines
  674-699 (BACK pressed), for the parameter number \<open>p\<close>. A number outside 0..3 matches no
  \<open>case\<close> and changes nothing.\<close>

definition aumentar :: "int \<Rightarrow> sistema \<Rightarrow> sistema" where
  "aumentar p s =
     (if p = 0 then
        (let a = limiar_atencao_baixo s + 5;
             b = (if a > limiar_atencao_alto s - 5 then limiar_atencao_alto s - 5 else a);
             c = (if b > 95 then 95 else b)
         in s\<lparr>limiar_atencao_baixo := c\<rparr>)
      else if p = 1 then
        (let a = limiar_atencao_alto s + 5;
             b = (if a > 100 then 100 else a)
         in s\<lparr>limiar_atencao_alto := b\<rparr>)
      else if p = 2 then
        (let a = limiar_relaxamento_baixo s + 0.5;
             b = (if a > limiar_relaxamento_alto s - 0.5
                  then limiar_relaxamento_alto s - 0.5 else a);
             c = (if b > 9.5 then 9.5 else b)
         in s\<lparr>limiar_relaxamento_baixo := c\<rparr>)
      else if p = 3 then
        (let a = limiar_relaxamento_alto s + 0.5;
             b = (if a > 10 then 10 else a)
         in s\<lparr>limiar_relaxamento_alto := b\<rparr>)
      else s)"

definition diminuir :: "int \<Rightarrow> sistema \<Rightarrow> sistema" where
  "diminuir p s =
     (if p = 0 then
        (let a = limiar_atencao_baixo s - 5;
             b = (if a < 5 then 5 else a)
         in s\<lparr>limiar_atencao_baixo := b\<rparr>)
      else if p = 1 then
        (let a = limiar_atencao_alto s - 5;
             b = (if a < limiar_atencao_baixo s + 5 then limiar_atencao_baixo s + 5 else a)
         in s\<lparr>limiar_atencao_alto := b\<rparr>)
      else if p = 2 then
        (let a = limiar_relaxamento_baixo s - 0.5;
             b = (if a < 0.5 then 0.5 else a)
         in s\<lparr>limiar_relaxamento_baixo := b\<rparr>)
      else if p = 3 then
        (let a = limiar_relaxamento_alto s - 0.5;
             b = (if a < limiar_relaxamento_baixo s + 0.5
                  then limiar_relaxamento_baixo s + 0.5 else a)
         in s\<lparr>limiar_relaxamento_alto := b\<rparr>)
      else s)"

text \<open>The handler: NEXT held low raises the current parameter, BACK held low lowers it,
  each behind the debounce test on the shared \<open>last_button_time\<close>. The test of the BACK
  block sees the timestamp the NEXT block has just written.\<close>

definition config_next :: "entrada \<Rightarrow> sistema \<Rightarrow> sistema" where
  "config_next e s =
     (if \<not> gpio_get e BUTTON_NEXT then
        (let current_time = time_us_32 e 627 div 1000 in
         if current_time - last_button_time s > DEBOUNCE_DELAY_MS
         then aumentar (current_param s) (s\<lparr>last_button_time := current_time\<rparr>)
         else s)
      else s)"

definition config_back :: "entrada \<Rightarrow> sistema \<Rightarrow> sistema" where
  "config_back e s =
     (if \<not> gpio_get e BUTTON_BACK then
        (let current_time = time_us_32 e 669 div 1000 in
         if current_time - last_button_time s > DEBOUNCE_DELAY_MS
         then diminuir (current_param s) (s\<lparr>last_button_time := current_time\<rparr>)
         else s)
      else s)"

definition executar_modo_configuracao :: "entrada \<Rightarrow> sistema \<Rightarrow> sistema" where
  "executar_modo_configuracao e s = config_back e (config_next e s)"

subsection \<open>Monitoring (lines 551-618)\<close>

text \<open>Lines 553-562, repeated at 749-758: the two sensor levels go into \<open>estado_atual\<close>.\<close>

definition ler_sensores :: "entrada \<Rightarrow> sistema \<Rightarrow> sistema" where
  "ler_sensores e s =
     s\<lparr>estado_atual := \<lparr> atencao = nivel_atencao e, relaxamento = nivel_relaxamento e \<rparr>\<rparr>"

definition executar_modo_monitoramento :: "entrada \<Rightarrow> sistema \<Rightarrow> sistema" where
  "executar_modo_monitoramento e s =
     (let s1 = ler_sensores e s;
          ea = estado_atual s1;
          st = stats s1;
          st1 = st\<lparr>soma_atencao := soma_atencao st + atencao ea,
                   soma_relaxamento := soma_relaxamento st + relaxamento ea,
                   amostras := amostras st + 1\<rparr>;
          st2 = (if atencao ea > max_atencao st1 then st1\<lparr>max_atencao := atencao ea\<rparr> else st1);
          st3 = (if relaxamento ea > max_relaxamento st2
                 then st2\<lparr>max_relaxamento := relaxamento ea\<rparr> else st2)
      in s1\<lparr>stats := st3\<rparr>)"

subsection \<open>Training (lines 747-869)\<close>

text \<open>Status 0, not started: NEXT cycles the objective (lines 763-772), SET starts a
  session (lines 775-789). \<open>objetivo\<close> is promoted to \<open>int\<close> before \<open>+ 1\<close> and \<open>% 3\<close>.\<close>

definition treino_next :: "entrada \<Rightarrow> sistema \<Rightarrow> sistema" where
  "treino_next e s =
     (if \<not> gpio_get e BUTTON_NEXT then
        (let current_time = time_us_32 e 764 div 1000 in
         if current_time - last_button_time s > DEBOUNCE_DELAY_MS
         then s\<lparr>last_button_time := current_time,
                 treinamento := (treinamento s)
                   \<lparr>objetivo := of_nat ((unat (objetivo (treinamento s)) + 1) mod 3)\<rparr>\<rparr>
         else s)
      else s)"

definition treino_iniciar :: "entrada \<Rightarrow> sistema \<Rightarrow> sistema" where
  "treino_iniciar e s =
     (if \<not> gpio_get e BUTTON_SET then
        (let current_time = time_us_32 e 776 div 1000 in
         if current_time - last_button_time s > DEBOUNCE_DELAY_MS
         then s\<lparr>last_button_time := current_time,
                 treinamento := (treinamento s)
                   \<lparr>status := 1, inicio := time_us_32 e 782 div 1000000,
                    nivel_atual := 1, nivel_maximo := 10, pontuacao := 0\<rparr>\<rparr>
         else s)
      else s)"

text \<open>Status 1, in progress. Lines 794-807: the objective test; an objective number
  outside 0..2 matches no \<open>case\<close> and leaves \<open>objetivo_atingido\<close> false.\<close>

definition objetivo_atingido :: "sistema \<Rightarrow> bool" where
  "objetivo_atingido s =
     (let ob = objetivo (treinamento s); ea = estado_atual s in
      if ob = 0 then atencao ea \<ge> limiar_atencao_alto s
      else if ob = 1 then relaxamento ea \<ge> limiar_relaxamento_alto s
      else if ob = 2 then (atencao ea \<ge> limiar_atencao_alto s
                           \<and> relaxamento ea \<ge> limiar_relaxamento_alto s)
      else False)"

text \<open>Lines 809-826: score, level and completion.\<close>

definition bloco_pontuacao :: "entrada \<Rightarrow> sistema \<Rightarrow> sistema" where
  "bloco_pontuacao e s =
     (if objetivo_atingido s then
        (let t1 = (treinamento s)\<lparr>pontuacao := pontuacao (treinamento s) + 1\<rparr> in
         if pontuacao t1 mod 50 = 0 \<and> nivel_atual t1 < nivel_maximo t1 then
           (let t2 = t1\<lparr>nivel_atual := nivel_atual t1 + 1\<rparr> in
            if nivel_atual t2 = nivel_maximo t2 then
              (let t3 = t2\<lparr>status := 2,
                           duracao := time_us_32 e 821 div 1000000 - inicio t2\<rparr>
               in s\<lparr>treinamento := t3,
                     stats := (stats s)
                       \<lparr>sessoes_concluidas := sessoes_concluidas (stats s) + 1,
                        tempo_ultimo_treino := duracao t3\<rparr>\<rparr>)
            else s\<lparr>treinamento := t2\<rparr>)
         else s\<lparr>treinamento := t1\<rparr>)
      else s)"

text \<open>Lines 828-842: the time limit. The block does not look at \<open>status\<close>: it also runs
  when the block before it has just completed the session.\<close>

definition bloco_tempo_limite :: "entrada \<Rightarrow> sistema \<Rightarrow> sistema" where
  "bloco_tempo_limite e s =
     (let tempo_decorrido = time_us_32 e 829 div 1000000 - inicio (treinamento s) in
      if tempo_decorrido \<ge> 300 then
        (let t = treinamento s;
             t1 = t\<lparr>status := (if nivel_atual t < nivel_maximo t then 3 else 2)\<rparr>;
             t2 = t1\<lparr>duracao := tempo_decorrido\<rparr>
         in s\<lparr>treinamento := t2,
               stats := (stats s)
                 \<lparr>sessoes_concluidas := sessoes_concluidas (stats s) + 1,
                  tempo_ultimo_treino := duracao t2\<rparr>\<rparr>)
      else s)"

text \<open>Lines 845-854: SET cancels.\<close>

definition bloco_cancelar :: "entrada \<Rightarrow> sistema \<Rightarrow> sistema" where
  "bloco_cancelar e s =
     (if \<not> gpio_get e BUTTON_SET then
        (let current_time = time_us_32 e 846 div 1000 in
         if current_time - last_button_time s > DEBOUNCE_DELAY_MS
         then s\<lparr>last_button_time := current_time,
                 treinamento := (treinamento s)\<lparr>status := 0\<rparr>\<rparr>
         else s)
      else s)"

text \<open>Status 2 or 3, lines 857-869: SET returns to status 0.\<close>

definition treino_reiniciar :: "entrada \<Rightarrow> sistema \<Rightarrow> sistema" where
  "treino_reiniciar e s =
     (if \<not> gpio_get e BUTTON_SET then
        (let current_time = time_us_32 e 860 div 1000 in
         if current_time - last_button_time s > DEBOUNCE_DELAY_MS
         then s\<lparr>last_button_time := current_time,
                 treinamento := (treinamento s)\<lparr>status := 0\<rparr>\<rparr>
         else s)
      else s)"

definition executar_modo_treinamento :: "entrada \<Rightarrow> sistema \<Rightarrow> sistema" where
  "executar_modo_treinamento e s =
     (let s0 = ler_sensores e s in
      if status (treinamento s0) = 0 then treino_iniciar e (treino_next e s0)
      else if status (treinamento s0) = 1
        then bloco_cancelar e (bloco_tempo_limite e (bloco_pontuacao e s0))
      else if status (treinamento s0) = 2 \<or> status (treinamento s0) = 3
        then treino_reiniciar e s0
      else s0)"

text \<open>Lines 906-910, the LED count shown while a session is in progress. The integer
  division traps on a zero divisor, so the model returns an error there.\<close>

datatype erro = DivisaoPorZero

definition leds_em_andamento :: "DadosTreinamento \<Rightarrow> erro + int" where
  "leds_em_andamento t =
     (if nivel_maximo t = 0 then Inl DivisaoPorZero
      else
        (let leds_por_nivel = NUM_PIXELS sdiv uint (nivel_maximo t);
             leds_acesos = leds_por_nivel * uint (nivel_atual t)
         in Inr (if leds_acesos > NUM_PIXELS then NUM_PIXELS else leds_acesos)))"

subsection \<open>History (lines 942-975)\<close>

text \<open>Lines 955-961: the assignments of the reset.\<close>

definition limpar_estatisticas :: "u32 \<Rightarrow> Estatisticas \<Rightarrow> Estatisticas" where
  "limpar_estatisticas us st =
     st\<lparr>soma_atencao := 0, soma_relaxamento := 0, max_atencao := 0, max_relaxamento := 0,
        amostras := 0, tempo_inicio := us div 1000000, sessoes_concluidas := 0\<rparr>"

definition executar_modo_historico :: "entrada \<Rightarrow> sistema \<Rightarrow> sistema" where
  "executar_modo_historico e s =
     (if \<not> gpio_get e BUTTON_SET then
        (let current_time = time_us_32 e 948 div 1000 in
         if current_time - last_button_time s > DEBOUNCE_DELAY_MS then
           (let s1 = s\<lparr>last_button_time := current_time\<rparr> in
            if \<not> gpio_get e BUTTON_NEXT
            then s1\<lparr>stats := limpar_estatisticas (time_us_32 e 960) (stats s1)\<rparr>
            else s1)
         else s)
      else s)"

text \<open>Lines 524-530 and 969-975, the two means. A division is written as a function
  that reports a zero divisor, so that the guard \<open>amostras > 0\<close> has something to
  protect.\<close>

definition dividir :: "real \<Rightarrow> u32 \<Rightarrow> erro + real" where
  "dividir x n = (if n = 0 then Inl DivisaoPorZero else Inr (x / real (unat n)))"

definition medias :: "Estatisticas \<Rightarrow> erro + (real \<times> real)" where
  "medias st =
     (if amostras st > 0 then
        (case dividir (soma_atencao st) (amostras st) of
           Inl err \<Rightarrow> Inl err
         | Inr media_atencao \<Rightarrow>
             (case dividir (soma_relaxamento st) (amostras st) of
                Inl err \<Rightarrow> Inl err
              | Inr media_relaxamento \<Rightarrow> Inr (media_atencao, media_relaxamento)))
      else Inr (0, 0))"

subsection \<open>The interrupt handler (lines 1010-1046)\<close>

text \<open>Lines 1015-1045: what an accepted edge does.\<close>

definition despachar :: "u32 \<Rightarrow> u32 \<Rightarrow> sistema \<Rightarrow> sistema" where
  "despachar gpio events s =
     (if gpio = BUTTON_SET \<and> events AND GPIO_IRQ_EDGE_FALL \<noteq> 0 then
        (if menu_index s \<noteq> 2 then
           (if \<not> in_set_mode s then s\<lparr>in_set_mode := True, current_param := 0\<rparr>
            else
              (let s1 = s\<lparr>current_param := current_param s + 1\<rparr> in
               if current_param s1 > 3 then s1\<lparr>in_set_mode := False, current_param := 0\<rparr>
               else s1))
         else s)
      else if gpio = BUTTON_NEXT \<and> events AND GPIO_IRQ_EDGE_FALL \<noteq> 0 then
        (if \<not> in_set_mode s then s\<lparr>menu_index := (menu_index s + 1) smod 4\<rparr> else s)
      else if gpio = BUTTON_BACK \<and> events AND GPIO_IRQ_EDGE_FALL \<noteq> 0 then
        (if \<not> in_set_mode s then s\<lparr>menu_index := (menu_index s + 3) smod 4\<rparr> else s)
      else s)"

text \<open>\<open>us\<close> is the timer reading of line 1011.\<close>

definition button_callback :: "u32 \<Rightarrow> u32 \<Rightarrow> u32 \<Rightarrow> sistema \<Rightarrow> sistema" where
  "button_callback gpio events us s =
     (let current_time = us div 1000 in
      if current_time - last_button_time s < DEBOUNCE_DELAY_MS then s
      else despachar gpio events (s\<lparr>last_button_time := current_time\<rparr>))"

subsection \<open>The main loop (lines 1154-1177) and runs of the program\<close>

definition iteracao :: "entrada \<Rightarrow> sistema \<Rightarrow> sistema" where
  "iteracao e s =
     (if in_set_mode s then executar_modo_configuracao e s
      else if menu_index s = 0 then executar_modo_monitoramento e s
      else if menu_index s = 1 then executar_modo_configuracao e s
      else if menu_index s = 2 then executar_modo_treinamento e s
      else if menu_index s = 3 then executar_modo_historico e s
      else s)"

text \<open>A run is a list of events: an iteration of the loop with what the hardware supplied
  to it, or an interrupt with its pin, its event mask and the timer reading. An
  interrupt is placed between two iterations; the invariants below are also proved
  for the blocks inside a handler, and none of them depends on \<open>last_button_time\<close>, the
  only variable that both the handlers and the interrupt write.\<close>

datatype evento = Laco entrada | Interrupcao u32 u32 u32

fun passo :: "sistema \<Rightarrow> evento \<Rightarrow> sistema" where
  "passo s (Laco e) = iteracao e s"
| "passo s (Interrupcao gpio events us) = button_callback gpio events us s"

definition executar :: "evento list \<Rightarrow> sistema \<Rightarrow> sistema" where
  "executar evs s = foldl passo s evs"

subsection \<open>Notions used in the properties\<close>

text \<open>The invariant of the four thresholds: each pair ordered, at least 5 (attention) or
  0.5 (relaxation) apart, attention thresholds in 5..100, relaxation thresholds in
  0.5..10.\<close>

definition limiares_ok :: "sistema \<Rightarrow> bool" where
  "limiares_ok s =
     (limiar_atencao_baixo s < limiar_atencao_alto s
      \<and> limiar_atencao_baixo s + 5 \<le> limiar_atencao_alto s
      \<and> 5 \<le> limiar_atencao_baixo s \<and> limiar_atencao_baixo s \<le> 100
      \<and> 5 \<le> limiar_atencao_alto s \<and> limiar_atencao_alto s \<le> 100
      \<and> limiar_relaxamento_baixo s < limiar_relaxamento_alto s
      \<and> limiar_relaxamento_baixo s + 0.5 \<le> limiar_relaxamento_alto s
      \<and> 0.5 \<le> limiar_relaxamento_baixo s \<and> limiar_relaxamento_baixo s \<le> 10
      \<and> 0.5 \<le> limiar_relaxamento_alto s \<and> limiar_relaxamento_alto s \<le> 10)"

text \<open>The attention thresholds are multiples of 5 and the relaxation thresholds multiples
  of one half.\<close>

definition na_grade :: "sistema \<Rightarrow> bool" where
  "na_grade s =
     (limiar_atencao_baixo s / 5 \<in> \<int> \<and> limiar_atencao_alto s / 5 \<in> \<int>
      \<and> 2 * limiar_relaxamento_baixo s \<in> \<int> \<and> 2 * limiar_relaxamento_alto s \<in> \<int>)"

definition limiares :: "sistema \<Rightarrow> real \<times> real \<times> real \<times> real" where
  "limiares s = (limiar_atencao_baixo s, limiar_atencao_alto s,
                 limiar_relaxamento_baixo s, limiar_relaxamento_alto s)"

text \<open>A sequence of adjustments, each on any parameter number.\<close>

datatype ajuste = Aumentar int | Diminuir int

fun aplicar :: "sistema \<Rightarrow> ajuste \<Rightarrow> sistema" where
  "aplicar s (Aumentar p) = aumentar p s"
| "aplicar s (Diminuir p) = diminuir p s"

text \<open>The invariant of a session in progress: the level follows the score, one level
  per 50 points, and the session ends before level 10 could be exceeded.\<close>

definition inv_treino :: "sistema \<Rightarrow> bool" where
  "inv_treino s =
     (status (treinamento s) = 1 \<longrightarrow>
        nivel_maximo (treinamento s) = 10 \<and> 1 \<le> nivel_atual (treinamento s)
        \<and> nivel_atual (treinamento s) < 10
        \<and> unat (nivel_atual (treinamento s)) = 1 + unat (pontuacao (treinamento s)) div 50)"

text \<open>Consecutive calls of the training handler, one per input.\<close>

definition treinar :: "entrada list \<Rightarrow> sistema \<Rightarrow> sistema" where
  "treinar es s = foldl (\<lambda>s e. executar_modo_treinamento e s) s es"

text \<open>A call in which the objective is met, SET is not held and the time limit of the
  session that \<open>s\<close> is in has not passed.\<close>

definition tick_normal :: "sistema \<Rightarrow> entrada \<Rightarrow> bool" where
  "tick_normal s e =
     (objetivo_atingido (ler_sensores e s) \<and> gpio_get e BUTTON_SET
      \<and> time_us_32 e 829 div 1000000 - inicio (treinamento s) < 300)"

definition mesma_sessao :: "sistema \<Rightarrow> sistema \<Rightarrow> bool" where
  "mesma_sessao s s' =
     (limiares s' = limiares s \<and> objetivo (treinamento s') = objetivo (treinamento s)
      \<and> inicio (treinamento s') = inicio (treinamento s)
      \<and> nivel_maximo (treinamento s') = nivel_maximo (treinamento s)
      \<and> status (treinamento s') = status (treinamento s))"

text \<open>The menu variables stay in range.\<close>

definition inv_menu :: "sistema \<Rightarrow> bool" where
  "inv_menu s = (0 \<le> menu_index s \<and> menu_index s < 4
                 \<and> 0 \<le> current_param s \<and> current_param s \<le> 3)"

subsection \<open>Example inputs and runs\<close>

text \<open>A run that starts a session: two accepted NEXT edges lead from monitoring to
  training, then an iteration with SET held low starts the session at second 5.
  \<open>sessao_exemplo\<close> is the state this run ends in (lemma \<open>corrida_exemplo_sessao\<close>).\<close>

definition entrada_set :: entrada where
  "entrada_set = \<lparr> nivel_atencao = 80, nivel_relaxamento = 8,
                    gpio_get = (\<lambda>p. p \<noteq> BUTTON_SET), time_us_32 = (\<lambda>l. 5000000) \<rparr>"

definition corrida_exemplo :: "evento list" where
  "corrida_exemplo =
     [Interrupcao BUTTON_NEXT GPIO_IRQ_EDGE_FALL 1000000,
      Interrupcao BUTTON_NEXT GPIO_IRQ_EDGE_FALL 2000000,
      Laco entrada_set]"

definition sessao_exemplo :: sistema where
  "sessao_exemplo =
     (estado_inicial 0)
       \<lparr> menu_index := 2, last_button_time := 5000,
         estado_atual := \<lparr> atencao = 80, relaxamento = 8 \<rparr>,
         treinamento := \<lparr> nivel_atual = 1, nivel_maximo = 10, duracao = 0, objetivo = 0,
                          status = 1, inicio = 5, pontuacao = 0 \<rparr> \<rparr>"

text \<open>The same session one point before its last level, and the run that leads to it:
  449 further iterations that meet the objective (lemma \<open>corrida_nivel9_estado\<close>).\<close>

definition sessao_nivel9 :: sistema where
  "sessao_nivel9 =
     sessao_exemplo
       \<lparr> treinamento := \<lparr> nivel_atual = 9, nivel_maximo = 10, duracao = 0, objetivo = 0,
                          status = 1, inicio = 5, pontuacao = 449 \<rparr> \<rparr>"

text \<open>Inputs with no button held: the objective met at second 10, and at second 400.\<close>

definition entrada_objetivo :: entrada where
  "entrada_objetivo = \<lparr> nivel_atencao = 80, nivel_relaxamento = 8,
                         gpio_get = (\<lambda>p. True), time_us_32 = (\<lambda>l. 10000000) \<rparr>"

definition entrada_tempo_limite :: entrada where
  "entrada_tempo_limite = \<lparr> nivel_atencao = 80, nivel_relaxamento = 8,
                             gpio_get = (\<lambda>p. True), time_us_32 = (\<lambda>l. 400000000) \<rparr>"

definition corrida_nivel9 :: "evento list" where
  "corrida_nivel9 = corrida_exemplo @ replicate 449 (Laco entrada_objetivo)"

text \<open>The session above runs into its time limit, and a NEXT edge leads on to the
  history mode; there SET and NEXT are held low at second 402.\<close>

definition corrida_falha :: "evento list" where
  "corrida_falha =
     corrida_exemplo @ [Laco entrada_tempo_limite,
                        Interrupcao BUTTON_NEXT GPIO_IRQ_EDGE_FALL 401000000]"

definition entrada_limpar :: entrada where
  "entrada_limpar = \<lparr> nivel_atencao = 50, nivel_relaxamento = 5,
                       gpio_get = (\<lambda>p. False), time_us_32 = (\<lambda>l. 402000000) \<rparr>"

text \<open>Parameter editing entered by a SET edge at millisecond 1000, and an iteration with
  NEXT held low at millisecond 1200.\<close>

definition estado_edicao :: sistema where
  "estado_edicao = button_callback BUTTON_SET GPIO_IRQ_EDGE_FALL 1000000 (estado_inicial 0)"

definition entrada_next_200 :: entrada where
  "entrada_next_200 = \<lparr> nivel_atencao = 50, nivel_relaxamento = 5,
                         gpio_get = (\<lambda>p. p \<noteq> BUTTON_NEXT), time_us_32 = (\<lambda>l. 1200000) \<rparr>"

section \<open>Properties\<close>

subsection \<open>Runs\<close>

lemma executar_inv:
  assumes "P s" and "\<And>s ev. P s \<Longrightarrow> P (passo s ev)"
  shows "P (executar evs s)"
  unfolding executar_def using assms(1)
proof (induction evs arbitrary: s)
  case Nil
  then show ?case by simp
next
  case (Cons ev evs)
  then show ?case using assms(2) by simp
qed

lemma executar_snoc: "executar (evs @ [ev]) s = passo (executar evs s) ev"
  by (simp add: executar_def)

subsection \<open>Thresholds\<close>

lemma limiares_ok_cong: "limiares s' = limiares s \<Longrightarrow> limiares_ok s' = limiares_ok s"
  by (simp add: limiares_def limiares_ok_def)

lemma na_grade_cong: "limiares s' = limiares s \<Longrightarrow> na_grade s' = na_grade s"
  by (simp add: limiares_def na_grade_def)

lemma limiares_ok_aumentar: "limiares_ok s \<Longrightarrow> limiares_ok (aumentar p s)"
  by (auto simp: limiares_ok_def aumentar_def Let_def)

lemma limiares_ok_diminuir: "limiares_ok s \<Longrightarrow> limiares_ok (diminuir p s)"
  by (auto simp: limiares_ok_def diminuir_def Let_def)

lemma grade5: "x / 5 \<in> \<int> \<Longrightarrow> (x + 5) / 5 \<in> \<int> \<and> (x - 5) / (5::real) \<in> \<int>"
  by (simp add: add_divide_distrib diff_divide_distrib)

lemma grade2: "2 * x \<in> \<int> \<Longrightarrow> 2 * (x + 0.5) \<in> \<int> \<and> 2 * (x - (0.5::real)) \<in> \<int>"
  by (simp add: distrib_left right_diff_distrib)

lemma na_grade_aumentar: "na_grade s \<Longrightarrow> na_grade (aumentar p s)"
  using grade5 [of "limiar_atencao_baixo s"] grade5 [of "limiar_atencao_alto s"]
    grade2 [of "limiar_relaxamento_baixo s"] grade2 [of "limiar_relaxamento_alto s"]
  by (auto simp: na_grade_def aumentar_def Let_def)

lemma na_grade_diminuir: "na_grade s \<Longrightarrow> na_grade (diminuir p s)"
  using grade5 [of "limiar_atencao_baixo s"] grade5 [of "limiar_atencao_alto s"]
    grade2 [of "limiar_relaxamento_baixo s"] grade2 [of "limiar_relaxamento_alto s"]
  by (auto simp: na_grade_def diminuir_def Let_def)

lemma limiares_last: "limiares (s\<lparr>last_button_time := t\<rparr>) = limiares s"
  by (simp add: limiares_def)

lemma limiares_ok_configuracao: "limiares_ok s \<Longrightarrow> limiares_ok (executar_modo_configuracao e s)"
  by (simp add: executar_modo_configuracao_def config_next_def config_back_def Let_def
      limiares_ok_aumentar limiares_ok_diminuir limiares_ok_cong [OF limiares_last])

lemma na_grade_configuracao: "na_grade s \<Longrightarrow> na_grade (executar_modo_configuracao e s)"
  by (simp add: executar_modo_configuracao_def config_next_def config_back_def Let_def
      na_grade_aumentar na_grade_diminuir na_grade_cong [OF limiares_last])

lemma limiares_blocos:
  "limiares (bloco_cancelar e s) = limiares s"
  "limiares (bloco_tempo_limite e s) = limiares s"
  "limiares (bloco_pontuacao e s) = limiares s"
  "limiares (ler_sensores e s) = limiares s"
  by (simp_all add: limiares_def bloco_cancelar_def bloco_tempo_limite_def
      bloco_pontuacao_def ler_sensores_def Let_def)

lemma limiares_monitoramento: "limiares (executar_modo_monitoramento e s) = limiares s"
  by (simp add: limiares_def executar_modo_monitoramento_def ler_sensores_def Let_def)

lemma limiares_treinamento: "limiares (executar_modo_treinamento e s) = limiares s"
  by (simp add: limiares_def executar_modo_treinamento_def ler_sensores_def Let_def
      treino_next_def treino_iniciar_def treino_reiniciar_def bloco_pontuacao_def
      bloco_tempo_limite_def bloco_cancelar_def)

lemma limiares_historico: "limiares (executar_modo_historico e s) = limiares s"
  by (simp add: limiares_def executar_modo_historico_def Let_def)

lemma limiares_callback: "limiares (button_callback g ev us s) = limiares s"
  by (simp add: limiares_def button_callback_def despachar_def Let_def)

lemma limiares_ok_passo: "limiares_ok s \<Longrightarrow> limiares_ok (passo s ev)"
  by (cases ev)
    (simp_all add: iteracao_def limiares_ok_configuracao
      limiares_ok_cong [OF limiares_monitoramento] limiares_ok_cong [OF limiares_treinamento]
      limiares_ok_cong [OF limiares_historico] limiares_ok_cong [OF limiares_callback])

lemma na_grade_passo: "na_grade s \<Longrightarrow> na_grade (passo s ev)"
  by (cases ev)
    (simp_all add: iteracao_def na_grade_configuracao
      na_grade_cong [OF limiares_monitoramento] na_grade_cong [OF limiares_treinamento]
      na_grade_cong [OF limiares_historico] na_grade_cong [OF limiares_callback])

lemma limiares_ok_inicial: "limiares_ok (estado_inicial us)"
  by (simp add: limiares_ok_def estado_inicial_def)

lemma limiares_ok_ajustes: "limiares_ok s \<Longrightarrow> limiares_ok (foldl aplicar s ops)"
proof (induction ops arbitrary: s)
  case Nil
  then show ?case by simp
next
  case (Cons a ops)
  have "limiares_ok (aplicar s a)"
    using Cons.prems by (cases a) (simp_all add: limiares_ok_aumentar limiares_ok_diminuir)
  then show ?case using Cons.IH by simp
qed

text \<open>In every run the thresholds stay on the grid of multiples of 5 and of one half,
  where the floating point operations of the handler are exact.\<close>

lemma limiares_na_grade: "na_grade (executar evs (estado_inicial us))"
proof (rule executar_inv)
  show "na_grade (estado_inicial us)"
    by (simp add: na_grade_def estado_inicial_def)
qed (rule na_grade_passo)

text \<open>From a state that satisfies the invariant, each adjustment is the step of 5 or
  0.5 cut off at the bound of section 4.3 of the specification.\<close>

lemma ajustes_saturam:
  assumes "limiares_ok s"
  shows "limiar_atencao_baixo (aumentar 0 s)
           = min (limiar_atencao_baixo s + 5) (limiar_atencao_alto s - 5)"
    and "limiar_atencao_alto (aumentar 1 s) = min (limiar_atencao_alto s + 5) 100"
    and "limiar_relaxamento_baixo (aumentar 2 s)
           = min (limiar_relaxamento_baixo s + 0.5) (limiar_relaxamento_alto s - 0.5)"
    and "limiar_relaxamento_alto (aumentar 3 s) = min (limiar_relaxamento_alto s + 0.5) 10"
    and "limiar_atencao_baixo (diminuir 0 s) = max (limiar_atencao_baixo s - 5) 5"
    and "limiar_atencao_alto (diminuir 1 s)
           = max (limiar_atencao_alto s - 5) (limiar_atencao_baixo s + 5)"
    and "limiar_relaxamento_baixo (diminuir 2 s) = max (limiar_relaxamento_baixo s - 0.5) 0.5"
    and "limiar_relaxamento_alto (diminuir 3 s)
           = max (limiar_relaxamento_alto s - 0.5) (limiar_relaxamento_baixo s + 0.5)"
  using assms by (auto simp: limiares_ok_def aumentar_def diminuir_def Let_def min_def max_def)

text \<open>
  Claim C1. Start from the initial thresholds 30/70 and 3/7. After every sequence of
  increase and decrease operations, on any parameter number, the thresholds satisfy
  \<open>limiares_ok\<close>: low below high in both pairs, gaps of at least 5 and 0.5, attention
  thresholds within 5..100 and relaxation thresholds within 0.5..10. The same holds
  after every run of the whole program, where the operations are the NEXT and BACK
  presses that \<open>executar_modo_configuracao\<close> accepts. The operations are total
  functions: none has an error result, a request past a bound is cut off at the bound
  (\<open>ajustes_saturam\<close>).
\<close>

theorem limiares_invariante:
  "limiares_ok (foldl aplicar (estado_inicial us) ops)
   \<and> limiares_ok (executar evs (estado_inicial us))"
proof
  show "limiares_ok (foldl aplicar (estado_inicial us) ops)"
    using limiares_ok_inicial by (rule limiares_ok_ajustes)
  show "limiares_ok (executar evs (estado_inicial us))"
    using limiares_ok_inicial limiares_ok_passo by (rule executar_inv)
qed

subsection \<open>Classifier\<close>

text \<open>
  Claim C2. The value returned by \<open>determinar_estado_cognitivo\<close> is the code of the
  label that the six rules of the specification give when they are tried in order and
  the first match wins. With the default thresholds 30/70 and 3/7: (75, 8) is Flow,
  (75, 2) Anxious, (20, 5) Distracted, (50, 5) Normal, (50, 8) DeepRelaxation and
  (80, 5) Concentrated.
\<close>

theorem classificador_precedencia:
  "determinar_estado_cognitivo s ea
     = codigo (classify_spec (atencao ea) (relaxamento ea)
                 (limiar_atencao_baixo s) (limiar_atencao_alto s)
                 (limiar_relaxamento_baixo s) (limiar_relaxamento_alto s))
   \<and> determinar_estado_cognitivo (estado_inicial us) \<lparr>atencao = 75, relaxamento = 8\<rparr>
       = codigo Flow
   \<and> determinar_estado_cognitivo (estado_inicial us) \<lparr>atencao = 75, relaxamento = 2\<rparr>
       = codigo Anxious
   \<and> determinar_estado_cognitivo (estado_inicial us) \<lparr>atencao = 20, relaxamento = 5\<rparr>
       = codigo Distracted
   \<and> determinar_estado_cognitivo (estado_inicial us) \<lparr>atencao = 50, relaxamento = 5\<rparr>
       = codigo Normal
   \<and> determinar_estado_cognitivo (estado_inicial us) \<lparr>atencao = 50, relaxamento = 8\<rparr>
       = codigo DeepRelaxation
   \<and> determinar_estado_cognitivo (estado_inicial us) \<lparr>atencao = 80, relaxamento = 5\<rparr>
       = codigo Concentrated"
proof -
  have regra: "determinar_estado_cognitivo s ea
     = codigo (classify_spec (atencao ea) (relaxamento ea)
                 (limiar_atencao_baixo s) (limiar_atencao_alto s)
                 (limiar_relaxamento_baixo s) (limiar_relaxamento_alto s))"
    by (simp add: determinar_estado_cognitivo_def classify_spec_def)
  show ?thesis
    by (simp add: regra) (simp add: determinar_estado_cognitivo_def estado_inicial_def)
qed

subsection \<open>Machine arithmetic\<close>

lemma unat_suc_u8: "(x::u8) < 10 \<Longrightarrow> unat (x + 1) = unat x + 1"
proof -
  assume "x < 10"
  then have "unat x < 10" by (simp add: word_less_nat_alt)
  then show ?thesis by (simp add: unat_word_ariths)
qed

lemma menor_suc_u8: "(x::u8) < 10 \<Longrightarrow> 1 \<le> x + 1 \<and> (x + 1 \<noteq> 10 \<longrightarrow> x + 1 < 10) \<and> x \<le> x + 1"
proof -
  assume a: "x < 10"
  have b: "unat x < 10" using a by (simp add: word_less_nat_alt)
  have c: "unat (x + 1) = unat x + 1" using a by (rule unat_suc_u8)
  have "x + 1 \<noteq> 10 \<Longrightarrow> unat (x + 1) \<noteq> 10"
    by (simp add: word_unat_eq_iff)
  then show ?thesis using b c by (auto simp: word_less_nat_alt word_le_nat_alt)
qed

lemma unat_suc_menor: "(x::u8) < y \<Longrightarrow> unat (x + 1) = unat x + 1"
proof -
  assume "x < y"
  then have "unat x < unat y" by (simp add: word_less_nat_alt)
  moreover have "unat y < 256" using unsigned_less [of y, where ?'a = nat] by simp
  ultimately have "unat x + 1 < 256" by simp
  then show ?thesis by (simp add: unat_word_ariths)
qed



lemma mod50_u32: "n \<le> 50 \<Longrightarrow> ((of_nat n :: u32) mod 50 = 0) = (n = 0 \<or> n = 50)"
proof -
  assume a: "n \<le> 50"
  have u: "unat (of_nat n :: u32) = n" using a by (simp add: unat_of_nat)
  have "((of_nat n :: u32) mod 50 = 0) = (unat ((of_nat n :: u32) mod 50) = 0)"
    by (simp add: word_unat_eq_iff)
  also have "\<dots> = (n mod 50 = 0)" by (simp add: unat_mod u)
  also have "\<dots> = (n = 0 \<or> n = 50)" using a by auto
  finally show ?thesis .
qed

lemma passo_nivel_pontuacao:
  fixes x :: u8 and p :: u32
  assumes x: "x < 10" and r: "unat x = 1 + unat p div 50"
  shows "unat (p + 1) = unat p + 1"
    and "((p + 1) mod 50 = 0) = ((unat p + 1) mod 50 = 0)"
    and "(p + 1) mod 50 = 0 \<Longrightarrow> unat (x + 1) = 1 + unat (p + 1) div 50"
    and "(p + 1) mod 50 \<noteq> 0 \<Longrightarrow> unat x = 1 + unat (p + 1) div 50"
    and "unat p < 450"
proof -
  have ux: "unat x < 10" using x by (simp add: word_less_nat_alt)
  show p450: "unat p < 450" using ux r by simp
  then show up: "unat (p + 1) = unat p + 1" by (simp add: unat_word_ariths)
  have "((p + 1) mod 50 = 0) = (unat ((p + 1) mod 50) = 0)"
    by (simp add: word_unat_eq_iff)
  also have "\<dots> = ((unat p + 1) mod 50 = 0)" by (simp add: unat_mod up)
  finally show m: "((p + 1) mod 50 = 0) = ((unat p + 1) mod 50 = 0)" .
  have ux1: "unat (x + 1) = unat x + 1" using x by (rule unat_suc_u8)
  show "(p + 1) mod 50 = 0 \<Longrightarrow> unat (x + 1) = 1 + unat (p + 1) div 50"
  proof -
    assume "(p + 1) mod 50 = 0"
    then have "(unat p + 1) mod 50 = 0" using m by simp
    then have "(unat p + 1) div 50 = unat p div 50 + 1" by (simp add: div_Suc)
    then show ?thesis using ux1 r up by simp
  qed
  show "(p + 1) mod 50 \<noteq> 0 \<Longrightarrow> unat x = 1 + unat (p + 1) div 50"
  proof -
    assume "(p + 1) mod 50 \<noteq> 0"
    then have "(unat p + 1) mod 50 \<noteq> 0" using m by simp
    then have "(unat p + 1) div 50 = unat p div 50" by (simp add: div_Suc)
    then show ?thesis using r up by simp
  qed
qed

lemma nivel_u8:
  assumes "k \<le> 9"
  shows "(of_nat k :: u8) < 10" and "(of_nat k :: u8) + 1 = of_nat (Suc k)"
    and "k < 9 \<Longrightarrow> (of_nat k :: u8) + 1 \<noteq> 10"
proof -
  have u: "unat (of_nat k :: u8) = k" using assms by (simp add: unat_of_nat)
  show "(of_nat k :: u8) < 10" using assms by (simp add: word_less_nat_alt u)
  show "(of_nat k :: u8) + 1 = of_nat (Suc k)" by simp
  show "k < 9 \<Longrightarrow> (of_nat k :: u8) + 1 \<noteq> 10"
  proof -
    assume "k < 9"
    then have "unat ((of_nat k :: u8) + 1) = k + 1" using u by (simp add: unat_word_ariths)
    then show ?thesis using \<open>k < 9\<close> by (auto simp: word_unat_eq_iff)
  qed
qed

lemma pontos_u32:
  assumes "n < 449"
  shows "(((of_nat n :: u32) + 1) mod 50 = 0) = (Suc n mod 50 = 0)"
proof -
  have u: "unat ((of_nat n :: u32) + 1) = Suc n"
    using assms by (simp add: unat_word_ariths unat_of_nat)
  have "(((of_nat n :: u32) + 1) mod 50 = 0) = (unat (((of_nat n :: u32) + 1) mod 50) = 0)"
    by (simp add: word_unat_eq_iff)
  also have "\<dots> = (Suc n mod 50 = 0)" by (simp add: unat_mod u)
  finally show ?thesis .
qed

lemma smod4: "(1::int) smod 4 = 1" "(2::int) smod 4 = 2" "(3::int) smod 4 = 3" "(4::int) smod 4 = 0"
  by (simp_all add: signed_modulo_int_def)

lemma smod4_mod: "0 \<le> a \<Longrightarrow> (a::int) smod 4 = a mod 4"
  by (cases "a = 0") (simp_all add: signed_modulo_int_def sgn_if)

subsection \<open>What each block of the training handler changes\<close>

lemma treinamento_ler: "treinamento (ler_sensores e s) = treinamento s"
  by (simp add: ler_sensores_def)

lemma treinamento_outros:
  "treinamento (executar_modo_monitoramento e s) = treinamento s"
  "treinamento (executar_modo_configuracao e s) = treinamento s"
  "treinamento (executar_modo_historico e s) = treinamento s"
  "treinamento (button_callback g ev us s) = treinamento s"
     apply (simp add: executar_modo_monitoramento_def ler_sensores_def Let_def)
    apply (simp add: executar_modo_configuracao_def config_next_def config_back_def aumentar_def diminuir_def Let_def)
   apply (simp add: executar_modo_historico_def Let_def)
  apply (simp add: button_callback_def despachar_def Let_def)
  done

lemma treinamento_st1:
  assumes "status (treinamento s) = 1"
  shows "executar_modo_treinamento e s
         = bloco_cancelar e (bloco_tempo_limite e (bloco_pontuacao e (ler_sensores e s)))"
  using assms by (simp add: executar_modo_treinamento_def Let_def ler_sensores_def)

lemma campos_cancelar:
  "pontuacao (treinamento (bloco_cancelar e s)) = pontuacao (treinamento s)"
  "nivel_atual (treinamento (bloco_cancelar e s)) = nivel_atual (treinamento s)"
  "nivel_maximo (treinamento (bloco_cancelar e s)) = nivel_maximo (treinamento s)"
  "duracao (treinamento (bloco_cancelar e s)) = duracao (treinamento s)"
  "inicio (treinamento (bloco_cancelar e s)) = inicio (treinamento s)"
  "objetivo (treinamento (bloco_cancelar e s)) = objetivo (treinamento s)"
  "stats (bloco_cancelar e s) = stats s"
  by (simp_all add: bloco_cancelar_def Let_def)

lemma status_cancelar:
  "status (treinamento (bloco_cancelar e s)) =
     (if \<not> gpio_get e BUTTON_SET
         \<and> time_us_32 e 846 div 1000 - last_button_time s > DEBOUNCE_DELAY_MS
      then 0 else status (treinamento s))"
  by (simp add: bloco_cancelar_def Let_def)

lemma campos_tempo_limite:
  "pontuacao (treinamento (bloco_tempo_limite e s)) = pontuacao (treinamento s)"
  "nivel_atual (treinamento (bloco_tempo_limite e s)) = nivel_atual (treinamento s)"
  "nivel_maximo (treinamento (bloco_tempo_limite e s)) = nivel_maximo (treinamento s)"
  "inicio (treinamento (bloco_tempo_limite e s)) = inicio (treinamento s)"
  "objetivo (treinamento (bloco_tempo_limite e s)) = objetivo (treinamento s)"
  "last_button_time (bloco_tempo_limite e s) = last_button_time s"
  by (simp_all add: bloco_tempo_limite_def Let_def)

lemma campos_pontuacao:
  "nivel_maximo (treinamento (bloco_pontuacao e s)) = nivel_maximo (treinamento s)"
  "inicio (treinamento (bloco_pontuacao e s)) = inicio (treinamento s)"
  "objetivo (treinamento (bloco_pontuacao e s)) = objetivo (treinamento s)"
  "last_button_time (bloco_pontuacao e s) = last_button_time s"
  by (simp_all add: bloco_pontuacao_def Let_def)

lemma pontuacao_bloco:
  "pontuacao (treinamento (bloco_pontuacao e s)) =
     (if objetivo_atingido s then pontuacao (treinamento s) + 1 else pontuacao (treinamento s))"
  by (simp add: bloco_pontuacao_def Let_def)

lemma nivel_bloco:
  "nivel_atual (treinamento (bloco_pontuacao e s)) =
     (if objetivo_atingido s \<and> (pontuacao (treinamento s) + 1) mod 50 = 0
         \<and> nivel_atual (treinamento s) < nivel_maximo (treinamento s)
      then nivel_atual (treinamento s) + 1 else nivel_atual (treinamento s))"
  by (simp add: bloco_pontuacao_def Let_def)

lemma status_bloco:
  "status (treinamento (bloco_pontuacao e s)) =
     (if objetivo_atingido s \<and> (pontuacao (treinamento s) + 1) mod 50 = 0
         \<and> nivel_atual (treinamento s) < nivel_maximo (treinamento s)
         \<and> nivel_atual (treinamento s) + 1 = nivel_maximo (treinamento s)
      then 2 else status (treinamento s))"
  by (simp add: bloco_pontuacao_def Let_def)

lemma duracao_bloco:
  "duracao (treinamento (bloco_pontuacao e s)) =
     (if objetivo_atingido s \<and> (pontuacao (treinamento s) + 1) mod 50 = 0
         \<and> nivel_atual (treinamento s) < nivel_maximo (treinamento s)
         \<and> nivel_atual (treinamento s) + 1 = nivel_maximo (treinamento s)
      then time_us_32 e 821 div 1000000 - inicio (treinamento s) else duracao (treinamento s))"
  by (simp add: bloco_pontuacao_def Let_def)

lemma status_tempo_limite:
  "status (treinamento (bloco_tempo_limite e s)) =
     (if time_us_32 e 829 div 1000000 - inicio (treinamento s) \<ge> 300
      then (if nivel_atual (treinamento s) < nivel_maximo (treinamento s) then 3 else 2)
      else status (treinamento s))"
  by (simp add: bloco_tempo_limite_def Let_def)

lemma duracao_tempo_limite:
  "duracao (treinamento (bloco_tempo_limite e s)) =
     (if time_us_32 e 829 div 1000000 - inicio (treinamento s) \<ge> 300
      then time_us_32 e 829 div 1000000 - inicio (treinamento s)
      else duracao (treinamento s))"
  by (simp add: bloco_tempo_limite_def Let_def)

lemma stats_tempo_limite:
  "time_us_32 e 829 div 1000000 - inicio (treinamento s) \<ge> 300 \<Longrightarrow>
   sessoes_concluidas (stats (bloco_tempo_limite e s)) = sessoes_concluidas (stats s) + 1
   \<and> tempo_ultimo_treino (stats (bloco_tempo_limite e s))
       = time_us_32 e 829 div 1000000 - inicio (treinamento s)"
  by (simp add: bloco_tempo_limite_def Let_def)

subsection \<open>The invariant of a session in progress\<close>

lemma inv_treino_pontuacao:
  assumes i: "inv_treino s" and st: "status (treinamento s) = 1"
  shows "inv_treino (bloco_pontuacao e s)"
proof -
  let ?t = "treinamento s"
  have a: "nivel_maximo ?t = 10" "1 \<le> nivel_atual ?t" "nivel_atual ?t < 10"
    "unat (nivel_atual ?t) = 1 + unat (pontuacao ?t) div 50"
    using i st by (simp_all add: inv_treino_def)
  note n = menor_suc_u8 [OF a(3)]
  note q = passo_nivel_pontuacao [OF a(3) a(4)]
  show ?thesis
  proof (cases "objetivo_atingido s")
    case False
    then show ?thesis using i by (simp add: bloco_pontuacao_def)
  next
    case True
    show ?thesis
    proof (cases "(pontuacao ?t + 1) mod 50 = 0")
      case True
      then show ?thesis
        using \<open>objetivo_atingido s\<close> a n q(3)
        by (simp add: inv_treino_def status_bloco nivel_bloco pontuacao_bloco campos_pontuacao)
    next
      case False
      then show ?thesis
        using \<open>objetivo_atingido s\<close> a q(4) st
        by (simp add: inv_treino_def status_bloco nivel_bloco pontuacao_bloco campos_pontuacao)
    qed
  qed
qed

lemma inv_treino_tempo: "inv_treino s \<Longrightarrow> inv_treino (bloco_tempo_limite e s)"
  by (auto simp: inv_treino_def bloco_tempo_limite_def Let_def)

lemma inv_treino_cancelar: "inv_treino s \<Longrightarrow> inv_treino (bloco_cancelar e s)"
  by (auto simp: inv_treino_def bloco_cancelar_def Let_def)

lemma inv_treino_ler: "inv_treino (ler_sensores e s) = inv_treino s"
  by (simp add: inv_treino_def ler_sensores_def)

lemma inv_treino_next: "inv_treino s \<Longrightarrow> inv_treino (treino_next e s)"
  by (auto simp: inv_treino_def treino_next_def Let_def)

lemma inv_treino_iniciar2: "inv_treino s \<Longrightarrow> inv_treino (treino_iniciar e s)"
  by (auto simp: inv_treino_def treino_iniciar_def Let_def)

lemma inv_treino_reiniciar: "inv_treino s \<Longrightarrow> inv_treino (treino_reiniciar e s)"
  by (auto simp: inv_treino_def treino_reiniciar_def Let_def)

lemma inv_treino_treinamento: "inv_treino s \<Longrightarrow> inv_treino (executar_modo_treinamento e s)"
  by (simp add: executar_modo_treinamento_def Let_def treinamento_ler inv_treino_ler
      inv_treino_reiniciar inv_treino_iniciar2 inv_treino_next inv_treino_cancelar
      inv_treino_tempo inv_treino_pontuacao)

lemma inv_treino_passo: "inv_treino s \<Longrightarrow> inv_treino (passo s ev)"
proof (cases ev)
  case (Laco e)
  assume a: "inv_treino s"
  have b: "\<And>s'. treinamento s' = treinamento s \<Longrightarrow> inv_treino s'"
    using a by (simp add: inv_treino_def)
  show ?thesis using Laco a
    by (simp add: iteracao_def inv_treino_treinamento b treinamento_outros)
next
  case (Interrupcao g ev' us)
  assume a: "inv_treino s"
  show ?thesis using Interrupcao a by (simp add: inv_treino_def treinamento_outros)
qed

lemma inv_treino_alcancavel: "inv_treino (executar evs (estado_inicial us))"
proof (rule executar_inv)
  show "inv_treino (estado_inicial us)" by (simp add: inv_treino_def estado_inicial_def)
qed (rule inv_treino_passo)


subsection \<open>The example runs\<close>

lemma corrida_exemplo_sessao: "executar corrida_exemplo (estado_inicial 0) = sessao_exemplo"
  by (simp add: corrida_exemplo_def sessao_exemplo_def executar_def button_callback_def
      despachar_def estado_inicial_def iteracao_def executar_modo_treinamento_def
      treino_next_def treino_iniciar_def ler_sensores_def entrada_set_def Let_def
      BUTTON_NEXT_def BUTTON_SET_def BUTTON_BACK_def GPIO_IRQ_EDGE_FALL_def
      DEBOUNCE_DELAY_MS_def smod4)


lemma corrida_falha_estado:
  "executar corrida_falha (estado_inicial 0)
     = sessao_exemplo
         \<lparr> menu_index := 3, last_button_time := 401000,
           treinamento := \<lparr> nivel_atual = 1, nivel_maximo = 10, duracao = 395, objetivo = 0,
                            status = 3, inicio = 5, pontuacao = 1 \<rparr>,
           stats := (stats sessao_exemplo)\<lparr>sessoes_concluidas := 1, tempo_ultimo_treino := 395\<rparr> \<rparr>"
  apply (simp add: corrida_falha_def executar_def [of "_ @ _"] flip: executar_def)
  apply (simp add: corrida_exemplo_sessao)
  apply (simp add: sessao_exemplo_def estado_inicial_def iteracao_def executar_modo_treinamento_def
      bloco_cancelar_def bloco_tempo_limite_def bloco_pontuacao_def objetivo_atingido_def
      ler_sensores_def entrada_tempo_limite_def Let_def button_callback_def despachar_def
      BUTTON_NEXT_def BUTTON_SET_def BUTTON_BACK_def GPIO_IRQ_EDGE_FALL_def
      DEBOUNCE_DELAY_MS_def smod4)
  done

lemma sessao_passo_objetivo:
  assumes n: "n < 449"
  shows "iteracao entrada_objetivo
           (sessao_exemplo\<lparr>treinamento := (treinamento sessao_exemplo)
              \<lparr>nivel_atual := of_nat (1 + n div 50), pontuacao := of_nat n\<rparr>\<rparr>)
         = sessao_exemplo\<lparr>treinamento := (treinamento sessao_exemplo)
              \<lparr>nivel_atual := of_nat (1 + Suc n div 50), pontuacao := of_nat (Suc n)\<rparr>\<rparr>"
proof -
  have k: "1 + n div 50 \<le> 9" using n by simp
  note l = nivel_u8 [OF k]
  note p = pontos_u32 [OF n]
  show ?thesis
  proof (cases "Suc n mod 50 = 0")
    case True
    then have d: "Suc n div 50 = Suc (n div 50)" by (simp add: div_Suc)
    have "Suc n div 50 \<le> 8" using n by simp
    then have "1 + n div 50 < 9" using d by simp
    then have ne: "(of_nat (1 + n div 50) :: u8) + 1 \<noteq> 10" by (rule l(3))
    show ?thesis
      using True p l(1) l(2) ne d
      by (simp add: iteracao_def executar_modo_treinamento_def bloco_cancelar_def
          bloco_tempo_limite_def bloco_pontuacao_def objetivo_atingido_def ler_sensores_def
          sessao_exemplo_def estado_inicial_def entrada_objetivo_def Let_def)
  next
    case False
    then have d: "Suc n div 50 = n div 50" by (simp add: div_Suc)
    show ?thesis
      using False p d
      by (simp add: iteracao_def executar_modo_treinamento_def bloco_cancelar_def
          bloco_tempo_limite_def bloco_pontuacao_def objetivo_atingido_def ler_sensores_def
          sessao_exemplo_def estado_inicial_def entrada_objetivo_def Let_def)
  qed
qed

lemma corrida_ate_nivel9:
  "n \<le> 449 \<Longrightarrow>
   executar (corrida_exemplo @ replicate n (Laco entrada_objetivo)) (estado_inicial 0)
     = sessao_exemplo\<lparr>treinamento := (treinamento sessao_exemplo)
         \<lparr>nivel_atual := of_nat (1 + n div 50), pontuacao := of_nat n\<rparr>\<rparr>"
proof (induction n)
  case 0
  show ?case by (simp add: corrida_exemplo_sessao) (simp add: sessao_exemplo_def)
next
  case (Suc n)
  have a: "corrida_exemplo @ replicate (Suc n) (Laco entrada_objetivo)
      = (corrida_exemplo @ replicate n (Laco entrada_objetivo)) @ [Laco entrada_objetivo]"
    by (simp add: replicate_append_same)
  have n: "n < 449" "n \<le> 449" using Suc.prems by simp_all
  show ?case
    unfolding a executar_snoc Suc.IH [OF n(2)]
    using sessao_passo_objetivo [OF n(1)] by simp
qed

lemma corrida_nivel9_estado: "executar corrida_nivel9 (estado_inicial 0) = sessao_nivel9"
  using corrida_ate_nivel9 [of 449]
  by (simp add: corrida_nivel9_def) (simp add: sessao_nivel9_def sessao_exemplo_def)

subsection \<open>Score and level\<close>

text \<open>The objective test on the levels that the call has just read.\<close>

lemma objetivo_atingido_leitura:
  "objetivo (treinamento s) = 0 \<Longrightarrow>
     objetivo_atingido (ler_sensores e s) = (nivel_atencao e \<ge> limiar_atencao_alto s)"
  "objetivo (treinamento s) = 1 \<Longrightarrow>
     objetivo_atingido (ler_sensores e s) = (nivel_relaxamento e \<ge> limiar_relaxamento_alto s)"
  "objetivo (treinamento s) = 2 \<Longrightarrow>
     objetivo_atingido (ler_sensores e s)
       = (nivel_atencao e \<ge> limiar_atencao_alto s
          \<and> nivel_relaxamento e \<ge> limiar_relaxamento_alto s)"
  by (simp_all add: objetivo_atingido_def ler_sensores_def)

lemma pontuacao_no_ciclo:
  "status (treinamento s) = 1 \<and> objetivo_atingido (ler_sensores e s) \<longrightarrow>
     pontuacao (treinamento (executar_modo_treinamento e s)) = pontuacao (treinamento s) + 1
     \<and> unat (nivel_atual (treinamento (executar_modo_treinamento e s)))
         = unat (nivel_atual (treinamento s))
           + (if (pontuacao (treinamento s) + 1) mod 50 = 0
                 \<and> nivel_atual (treinamento s) < nivel_maximo (treinamento s) then 1 else 0)
     \<and> ((pontuacao (treinamento s) + 1) mod 50 = 0
          \<and> nivel_atual (treinamento s) < nivel_maximo (treinamento s)
          \<and> nivel_atual (treinamento s) + 1 = nivel_maximo (treinamento s) \<longrightarrow>
          status (treinamento (bloco_pontuacao e (ler_sensores e s))) = 2
          \<and> duracao (treinamento (bloco_pontuacao e (ler_sensores e s)))
              = time_us_32 e 821 div 1000000 - inicio (treinamento s)
          \<and> (gpio_get e BUTTON_SET \<longrightarrow>
               status (treinamento (executar_modo_treinamento e s)) = 2))"
proof (intro impI, elim conjE)
  assume st: "status (treinamento s) = 1" and oa: "objetivo_atingido (ler_sensores e s)"
  let ?s0 = "ler_sensores e s"
  have t0: "treinamento ?s0 = treinamento s" by (simp add: ler_sensores_def)
  have tick: "executar_modo_treinamento e s
      = bloco_cancelar e (bloco_tempo_limite e (bloco_pontuacao e ?s0))"
    using st by (rule treinamento_st1)
  have p: "pontuacao (treinamento (executar_modo_treinamento e s)) = pontuacao (treinamento s) + 1"
    using oa by (simp add: tick campos_cancelar campos_tempo_limite pontuacao_bloco t0)
  have n: "unat (nivel_atual (treinamento (executar_modo_treinamento e s)))
         = unat (nivel_atual (treinamento s))
           + (if (pontuacao (treinamento s) + 1) mod 50 = 0
                 \<and> nivel_atual (treinamento s) < nivel_maximo (treinamento s) then 1 else 0)"
    using oa unat_suc_menor [of "nivel_atual (treinamento s)" "nivel_maximo (treinamento s)"]
    by (simp add: tick campos_cancelar campos_tempo_limite nivel_bloco t0)
  have c: "(pontuacao (treinamento s) + 1) mod 50 = 0
          \<and> nivel_atual (treinamento s) < nivel_maximo (treinamento s)
          \<and> nivel_atual (treinamento s) + 1 = nivel_maximo (treinamento s) \<longrightarrow>
          status (treinamento (bloco_pontuacao e ?s0)) = 2
          \<and> duracao (treinamento (bloco_pontuacao e ?s0))
              = time_us_32 e 821 div 1000000 - inicio (treinamento s)
          \<and> (gpio_get e BUTTON_SET \<longrightarrow>
               status (treinamento (executar_modo_treinamento e s)) = 2)"
    using oa
    by (simp add: tick status_cancelar status_tempo_limite campos_pontuacao
        status_bloco duracao_bloco nivel_bloco t0)
  show "pontuacao (treinamento (executar_modo_treinamento e s)) = pontuacao (treinamento s) + 1
     \<and> unat (nivel_atual (treinamento (executar_modo_treinamento e s)))
         = unat (nivel_atual (treinamento s))
           + (if (pontuacao (treinamento s) + 1) mod 50 = 0
                 \<and> nivel_atual (treinamento s) < nivel_maximo (treinamento s) then 1 else 0)
     \<and> ((pontuacao (treinamento s) + 1) mod 50 = 0
          \<and> nivel_atual (treinamento s) < nivel_maximo (treinamento s)
          \<and> nivel_atual (treinamento s) + 1 = nivel_maximo (treinamento s) \<longrightarrow>
          status (treinamento (bloco_pontuacao e (ler_sensores e s))) = 2
          \<and> duracao (treinamento (bloco_pontuacao e (ler_sensores e s)))
              = time_us_32 e 821 div 1000000 - inicio (treinamento s)
          \<and> (gpio_get e BUTTON_SET \<longrightarrow>
               status (treinamento (executar_modo_treinamento e s)) = 2))"
    using p n c by blast
qed

lemma tick_normal_cong: "mesma_sessao s s' \<Longrightarrow> tick_normal s' e = tick_normal s e"
  by (simp add: mesma_sessao_def tick_normal_def objetivo_atingido_def ler_sensores_def
      limiares_def Let_def)

lemma tick_normal_passo:
  assumes st: "status (treinamento s) = 1" and nm: "nivel_maximo (treinamento s) = 10"
    and n1: "nivel_atual (treinamento s) = 1" and p: "pontuacao (treinamento s) = of_nat k"
    and k: "k < 50" and ok: "tick_normal s e"
  shows "mesma_sessao s (executar_modo_treinamento e s)
     \<and> pontuacao (treinamento (executar_modo_treinamento e s)) = of_nat (Suc k)
     \<and> nivel_atual (treinamento (executar_modo_treinamento e s)) = (if Suc k = 50 then 2 else 1)"
proof -
  let ?s0 = "ler_sensores e s"
  have t0: "treinamento ?s0 = treinamento s" by (simp add: ler_sensores_def)
  have oa: "objetivo_atingido ?s0" and set: "gpio_get e BUTTON_SET"
    and tl: "\<not> 300 \<le> time_us_32 e 829 div 1000000 - inicio (treinamento s)"
    using ok by (simp_all add: tick_normal_def not_le)
  have m: "((of_nat k + 1 :: u32) mod 50 = 0) = (Suc k = 50)"
    using mod50_u32 [of "Suc k"] k by (simp add: add.commute)
  have pt: "pontuacao (treinamento (executar_modo_treinamento e s)) = of_nat (Suc k)"
    using oa p by (simp add: treinamento_st1 [OF st] campos_cancelar campos_tempo_limite
        pontuacao_bloco t0)
  have nv: "nivel_atual (treinamento (executar_modo_treinamento e s)) = (if Suc k = 50 then 2 else 1)"
    using oa p nm n1 m by (simp add: treinamento_st1 [OF st] campos_cancelar campos_tempo_limite
        nivel_bloco t0)
  have sb: "status (treinamento (bloco_pontuacao e ?s0)) = 1"
    using st nm n1 by (simp add: status_bloco t0)
  have ss: "status (treinamento (executar_modo_treinamento e s)) = 1"
    using set tl sb by (simp add: treinamento_st1 [OF st] status_cancelar status_tempo_limite
        campos_pontuacao t0)
  have ms: "mesma_sessao s (executar_modo_treinamento e s)"
    using ss st by (simp add: mesma_sessao_def treinamento_st1 [OF st] limiares_blocos
        campos_cancelar campos_tempo_limite campos_pontuacao t0)
  show ?thesis using pt nv ms by simp
qed

lemma mesma_sessao_trans: "mesma_sessao a b \<Longrightarrow> mesma_sessao b c \<Longrightarrow> mesma_sessao a c"
  by (simp add: mesma_sessao_def)

lemma mesma_sessao_refl: "mesma_sessao a a"
  by (simp add: mesma_sessao_def)

lemma treinar_snoc: "treinar (es @ [e]) s = executar_modo_treinamento e (treinar es s)"
  by (simp add: treinar_def)

lemma treinar_abaixo_de_50:
  assumes st: "status (treinamento s) = 1" and nm: "nivel_maximo (treinamento s) = 10"
    and n1: "nivel_atual (treinamento s) = 1" and p: "pontuacao (treinamento s) = 0"
  shows "length es < 50 \<Longrightarrow> \<forall>e \<in> set es. tick_normal s e \<Longrightarrow>
     mesma_sessao s (treinar es s)
     \<and> pontuacao (treinamento (treinar es s)) = of_nat (length es)
     \<and> nivel_atual (treinamento (treinar es s)) = 1"
proof (induction es rule: rev_induct)
  case Nil
  then show ?case using p n1 by (simp add: treinar_def mesma_sessao_refl)
next
  case (snoc e es)
  let ?s = "treinar es s"
  have ih: "mesma_sessao s ?s" "pontuacao (treinamento ?s) = of_nat (length es)"
    "nivel_atual (treinamento ?s) = 1"
    using snoc by simp_all
  have st': "status (treinamento ?s) = 1" and nm': "nivel_maximo (treinamento ?s) = 10"
    using ih(1) st nm by (simp_all add: mesma_sessao_def)
  have ok: "tick_normal ?s e" using snoc.prems(2) ih(1) by (simp add: tick_normal_cong)
  have k: "length es < 49" using snoc.prems(1) by simp
  then have k': "length es < 50" by simp
  have "mesma_sessao ?s (executar_modo_treinamento e ?s)
     \<and> pontuacao (treinamento (executar_modo_treinamento e ?s)) = of_nat (Suc (length es))
     \<and> nivel_atual (treinamento (executar_modo_treinamento e ?s)) = (if Suc (length es) = 50 then 2 else 1)"
    using st' nm' ih(3) ih(2) k' ok by (rule tick_normal_passo)
  then show ?case using k ih(1) by (auto simp: treinar_snoc intro: mesma_sessao_trans)
qed

lemma treinar_50:
  assumes st: "status (treinamento s) = 1" and nm: "nivel_maximo (treinamento s) = 10"
    and n1: "nivel_atual (treinamento s) = 1" and p: "pontuacao (treinamento s) = 0"
    and len: "length es = 50" and ok: "\<forall>e \<in> set es. tick_normal s e"
  shows "status (treinamento (treinar es s)) = 1
     \<and> pontuacao (treinamento (treinar es s)) = 50
     \<and> nivel_atual (treinamento (treinar es s)) = 2"
proof -
  obtain es' e where es: "es = es' @ [e]" using len by (cases es rule: rev_cases) auto
  let ?s = "treinar es' s"
  have l: "length es' = 49" using len es by simp
  have pre: "mesma_sessao s ?s \<and> pontuacao (treinamento ?s) = of_nat (length es')
     \<and> nivel_atual (treinamento ?s) = 1"
    using st nm n1 p
  proof (rule treinar_abaixo_de_50)
    show "length es' < 50" using l by simp
    show "\<forall>e \<in> set es'. tick_normal s e" using ok es by simp
  qed
  have st': "status (treinamento ?s) = 1" and nm': "nivel_maximo (treinamento ?s) = 10"
    using pre st nm by (simp_all add: mesma_sessao_def)
  have ok': "tick_normal ?s e"
    using ok es tick_normal_cong [OF pre [THEN conjunct1]] by simp
  have "mesma_sessao ?s (executar_modo_treinamento e ?s)
     \<and> pontuacao (treinamento (executar_modo_treinamento e ?s)) = of_nat (Suc 49)
     \<and> nivel_atual (treinamento (executar_modo_treinamento e ?s)) = (if Suc 49 = (50::nat) then 2 else 1)"
    using st' nm' _ _ _ ok'
  proof (rule tick_normal_passo)
    show "nivel_atual (treinamento ?s) = 1" using pre by simp
    show "pontuacao (treinamento ?s) = of_nat 49" using pre l by simp
    show "(49::nat) < 50" by simp
  qed
  then show ?thesis using st' by (simp add: es treinar_snoc mesma_sessao_def)
qed

text \<open>
  Claim C3. In a call of the training handler made while the session is in progress
  (\<open>status = 1\<close>) and in which the objective is met (attention at or above the high
  attention threshold, relaxation at or above the high relaxation threshold, or both,
  by the objective chosen), the score grows by 1 (in
  \<open>uint32_t\<close> arithmetic), and the level grows by 1 exactly when the new score is a
  multiple of 50 and the level is below \<open>nivel_maximo\<close>; otherwise the level stays. When
  the level so reaches \<open>nivel_maximo\<close>, the scoring block (lines 809-826) sets the status to
  2 (completed) and the duration to the seconds since the start, and the call ends in
  status 2 unless SET is held, which the last block of the same call reads as a return
  to status 0. Second part: from score 0 and level 1 with \<open>nivel_maximo = 10\<close>, after
  fewer than 50 consecutive calls that meet the objective (no time limit hit, SET not
  held) the level is still 1 and the score is the number of calls; after exactly 50 the
  score is 50 and the level is 2.
\<close>

theorem treino_pontuacao_e_nivel:
  "(status (treinamento s) = 1 \<and> objetivo_atingido (ler_sensores e s) \<longrightarrow>
     pontuacao (treinamento (executar_modo_treinamento e s)) = pontuacao (treinamento s) + 1
     \<and> unat (nivel_atual (treinamento (executar_modo_treinamento e s)))
         = unat (nivel_atual (treinamento s))
           + (if (pontuacao (treinamento s) + 1) mod 50 = 0
                 \<and> nivel_atual (treinamento s) < nivel_maximo (treinamento s) then 1 else 0)
     \<and> ((pontuacao (treinamento s) + 1) mod 50 = 0
          \<and> nivel_atual (treinamento s) < nivel_maximo (treinamento s)
          \<and> nivel_atual (treinamento s) + 1 = nivel_maximo (treinamento s) \<longrightarrow>
          status (treinamento (bloco_pontuacao e (ler_sensores e s))) = 2
          \<and> duracao (treinamento (bloco_pontuacao e (ler_sensores e s)))
              = time_us_32 e 821 div 1000000 - inicio (treinamento s)
          \<and> (gpio_get e BUTTON_SET \<longrightarrow>
               status (treinamento (executar_modo_treinamento e s)) = 2)))
   \<and> (status (treinamento s') = 1 \<and> nivel_maximo (treinamento s') = 10
        \<and> nivel_atual (treinamento s') = 1 \<and> pontuacao (treinamento s') = 0
        \<and> (\<forall>e \<in> set es. tick_normal s' e) \<longrightarrow>
        (length es < 50 \<longrightarrow>
           status (treinamento (treinar es s')) = 1
           \<and> pontuacao (treinamento (treinar es s')) = of_nat (length es)
           \<and> nivel_atual (treinamento (treinar es s')) = 1)
        \<and> (length es = 50 \<longrightarrow>
           status (treinamento (treinar es s')) = 1
           \<and> pontuacao (treinamento (treinar es s')) = 50
           \<and> nivel_atual (treinamento (treinar es s')) = 2))"
proof (rule conjI)
  show "status (treinamento s) = 1 \<and> objetivo_atingido (ler_sensores e s) \<longrightarrow>
     pontuacao (treinamento (executar_modo_treinamento e s)) = pontuacao (treinamento s) + 1
     \<and> unat (nivel_atual (treinamento (executar_modo_treinamento e s)))
         = unat (nivel_atual (treinamento s))
           + (if (pontuacao (treinamento s) + 1) mod 50 = 0
                 \<and> nivel_atual (treinamento s) < nivel_maximo (treinamento s) then 1 else 0)
     \<and> ((pontuacao (treinamento s) + 1) mod 50 = 0
          \<and> nivel_atual (treinamento s) < nivel_maximo (treinamento s)
          \<and> nivel_atual (treinamento s) + 1 = nivel_maximo (treinamento s) \<longrightarrow>
          status (treinamento (bloco_pontuacao e (ler_sensores e s))) = 2
          \<and> duracao (treinamento (bloco_pontuacao e (ler_sensores e s)))
              = time_us_32 e 821 div 1000000 - inicio (treinamento s)
          \<and> (gpio_get e BUTTON_SET \<longrightarrow>
               status (treinamento (executar_modo_treinamento e s)) = 2))"
    by (rule pontuacao_no_ciclo)
next
  show "status (treinamento s') = 1 \<and> nivel_maximo (treinamento s') = 10
        \<and> nivel_atual (treinamento s') = 1 \<and> pontuacao (treinamento s') = 0
        \<and> (\<forall>e \<in> set es. tick_normal s' e) \<longrightarrow>
        (length es < 50 \<longrightarrow>
           status (treinamento (treinar es s')) = 1
           \<and> pontuacao (treinamento (treinar es s')) = of_nat (length es)
           \<and> nivel_atual (treinamento (treinar es s')) = 1)
        \<and> (length es = 50 \<longrightarrow>
           status (treinamento (treinar es s')) = 1
           \<and> pontuacao (treinamento (treinar es s')) = 50
           \<and> nivel_atual (treinamento (treinar es s')) = 2)"
  proof (intro impI conjI, goal_cases)
    case 1
    then show ?case using treinar_abaixo_de_50 [of s' es] by (simp add: mesma_sessao_def)
  next
    case 2
    then show ?case using treinar_abaixo_de_50 [of s' es] by simp
  next
    case 3
    then show ?case using treinar_abaixo_de_50 [of s' es] by simp
  next
    case 4
    then show ?case using treinar_50 [of s' es] by simp
  next
    case 5
    then show ?case using treinar_50 [of s' es] by simp
  next
    case 6
    then show ?case using treinar_50 [of s' es] by simp
  qed
qed

theorem treino_pontuacao_e_nivel_witness:
  "status (treinamento sessao_nivel9) = 1
   \<and> objetivo_atingido (ler_sensores entrada_objetivo sessao_nivel9)
   \<and> pontuacao (treinamento (executar_modo_treinamento entrada_objetivo sessao_nivel9)) = 450
   \<and> unat (nivel_atual (treinamento (executar_modo_treinamento entrada_objetivo sessao_nivel9))) = 10
   \<and> status (treinamento (executar_modo_treinamento entrada_objetivo sessao_nivel9)) = 2
   \<and> duracao (treinamento (bloco_pontuacao entrada_objetivo
                              (ler_sensores entrada_objetivo sessao_nivel9))) = 5
   \<and> length (replicate 50 entrada_objetivo) = 50
   \<and> tick_normal sessao_exemplo entrada_objetivo
   \<and> pontuacao (treinamento (treinar (replicate 50 entrada_objetivo) sessao_exemplo)) = 50
   \<and> nivel_atual (treinamento (treinar (replicate 50 entrada_objetivo) sessao_exemplo)) = 2
   \<and> nivel_atual (treinamento (treinar (replicate 49 entrada_objetivo) sessao_exemplo)) = 1"
proof -
  have a: "status (treinamento sessao_nivel9) = 1"
    "nivel_atual (treinamento sessao_nivel9) = 9" "nivel_maximo (treinamento sessao_nivel9) = 10"
    "pontuacao (treinamento sessao_nivel9) = 449" "inicio (treinamento sessao_nivel9) = 5"
    by (simp_all add: sessao_nivel9_def)
  have b: "objetivo_atingido (ler_sensores entrada_objetivo sessao_nivel9)"
    by (simp add: sessao_nivel9_def sessao_exemplo_def estado_inicial_def entrada_objetivo_def
        objetivo_atingido_def ler_sensores_def)
  have c: "status (treinamento sessao_exemplo) = 1" "nivel_maximo (treinamento sessao_exemplo) = 10"
    "nivel_atual (treinamento sessao_exemplo) = 1" "pontuacao (treinamento sessao_exemplo) = 0"
    by (simp_all add: sessao_exemplo_def)
  have d: "tick_normal sessao_exemplo entrada_objetivo"
    by (simp add: tick_normal_def sessao_exemplo_def estado_inicial_def entrada_objetivo_def
        objetivo_atingido_def ler_sensores_def)
  have e: "gpio_get entrada_objetivo BUTTON_SET" "time_us_32 entrada_objetivo 821 = 10000000"
    by (simp_all add: entrada_objetivo_def)
  note t1 = treino_pontuacao_e_nivel
      [of sessao_nivel9 entrada_objetivo sessao_exemplo "replicate 50 entrada_objetivo"]
  note t2 = treino_pontuacao_e_nivel
      [of sessao_nivel9 entrada_objetivo sessao_exemplo "replicate 49 entrada_objetivo"]
  show ?thesis using t1 t2 a b c d e by simp
qed

subsection \<open>The time limit\<close>

text \<open>
  Claim C4. In a call of the training handler made while the session is in progress, if
  the seconds since the start (\<open>uint32_t\<close> difference, read at line 829) are 300 or more,
  the time limit block (lines 828-842) sets the status to 3 (failed) when the level is
  below \<open>nivel_maximo\<close> and to 2 (completed) otherwise, the level being the one the scoring
  block of the same call has left; it sets the duration to the elapsed seconds, adds 1 to
  \<open>sessoes_concluidas\<close> and records the duration in \<open>tempo_ultimo_treino\<close>. At the end of the
  call the session is no longer in progress, and duration and counters are as the block
  left them; the status is the one the block has set unless SET is held and accepted in
  the same call, which returns it to 0.
\<close>

theorem tempo_limite_encerra:
  assumes "status (treinamento s) = 1"
    and "time_us_32 e 829 div 1000000 - inicio (treinamento s) \<ge> 300"
  shows "let s1 = bloco_pontuacao e (ler_sensores e s);
             s2 = bloco_tempo_limite e s1;
             s3 = executar_modo_treinamento e s;
             tempo_decorrido = time_us_32 e 829 div 1000000 - inicio (treinamento s)
         in status (treinamento s2)
                = (if nivel_atual (treinamento s1) < nivel_maximo (treinamento s1) then 3 else 2)
            \<and> duracao (treinamento s2) = tempo_decorrido
            \<and> sessoes_concluidas (stats s2) = sessoes_concluidas (stats s1) + 1
            \<and> tempo_ultimo_treino (stats s2) = tempo_decorrido
            \<and> status (treinamento s3) \<noteq> 1
            \<and> status (treinamento s3)
                = (if \<not> gpio_get e BUTTON_SET
                      \<and> time_us_32 e 846 div 1000 - last_button_time s > DEBOUNCE_DELAY_MS
                   then 0
                   else if nivel_atual (treinamento s1) < nivel_maximo (treinamento s1)
                   then 3 else 2)
            \<and> duracao (treinamento s3) = tempo_decorrido
            \<and> sessoes_concluidas (stats s3) = sessoes_concluidas (stats s1) + 1
            \<and> tempo_ultimo_treino (stats s3) = tempo_decorrido"
proof -
  let ?s0 = "ler_sensores e s"
  let ?s1 = "bloco_pontuacao e ?s0"
  let ?s2 = "bloco_tempo_limite e ?s1"
  have t0: "treinamento ?s0 = treinamento s" "last_button_time ?s0 = last_button_time s"
    by (simp_all add: ler_sensores_def)
  have tick: "executar_modo_treinamento e s = bloco_cancelar e ?s2"
    using assms(1) by (rule treinamento_st1)
  have td: "time_us_32 e 829 div 1000000 - inicio (treinamento ?s1) \<ge> 300"
    using assms(2) by (simp add: campos_pontuacao t0)
  have st2: "status (treinamento ?s2)
      = (if nivel_atual (treinamento ?s1) < nivel_maximo (treinamento ?s1) then 3 else 2)"
    using td by (simp add: status_tempo_limite)
  have du2: "duracao (treinamento ?s2) = time_us_32 e 829 div 1000000 - inicio (treinamento s)"
    using td by (simp add: duracao_tempo_limite campos_pontuacao t0)
  have es2: "sessoes_concluidas (stats ?s2) = sessoes_concluidas (stats ?s1) + 1
     \<and> tempo_ultimo_treino (stats ?s2) = time_us_32 e 829 div 1000000 - inicio (treinamento s)"
    using stats_tempo_limite [OF td] by (simp add: campos_pontuacao t0)
  have lb: "last_button_time ?s2 = last_button_time s"
    by (simp add: campos_tempo_limite campos_pontuacao t0)
  have st3: "status (treinamento (bloco_cancelar e ?s2))
                = (if \<not> gpio_get e BUTTON_SET
                      \<and> time_us_32 e 846 div 1000 - last_button_time s > DEBOUNCE_DELAY_MS
                   then 0
                   else if nivel_atual (treinamento ?s1) < nivel_maximo (treinamento ?s1)
                   then 3 else 2)"
    by (simp add: status_cancelar st2 lb)
  show ?thesis
    unfolding Let_def tick
    using st2 du2 es2 st3 by (simp add: campos_cancelar)
qed

theorem tempo_limite_encerra_witness:
  "status (treinamento sessao_exemplo) = 1
   \<and> time_us_32 entrada_tempo_limite 829 div 1000000 - inicio (treinamento sessao_exemplo) \<ge> 300
   \<and> status (treinamento (executar_modo_treinamento entrada_tempo_limite sessao_exemplo)) = 3
   \<and> duracao (treinamento (executar_modo_treinamento entrada_tempo_limite sessao_exemplo)) = 395
   \<and> sessoes_concluidas (stats (executar_modo_treinamento entrada_tempo_limite sessao_exemplo)) = 1
   \<and> tempo_ultimo_treino (stats (executar_modo_treinamento entrada_tempo_limite sessao_exemplo)) = 395"
proof -
  have a: "status (treinamento sessao_exemplo) = 1"
    by (simp add: sessao_exemplo_def)
  have b: "time_us_32 entrada_tempo_limite 829 div 1000000 - inicio (treinamento sessao_exemplo) \<ge> 300"
    by (simp add: sessao_exemplo_def entrada_tempo_limite_def)
  have c: "time_us_32 entrada_tempo_limite 829 div 1000000 - inicio (treinamento sessao_exemplo) = 395"
    by (simp add: sessao_exemplo_def entrada_tempo_limite_def)
  have d: "gpio_get entrada_tempo_limite BUTTON_SET" by (simp add: entrada_tempo_limite_def)
  have e: "nivel_atual (treinamento (bloco_pontuacao entrada_tempo_limite
                (ler_sensores entrada_tempo_limite sessao_exemplo))) = 1"
    "nivel_maximo (treinamento (bloco_pontuacao entrada_tempo_limite
                (ler_sensores entrada_tempo_limite sessao_exemplo))) = 10"
    "sessoes_concluidas (stats (bloco_pontuacao entrada_tempo_limite
                (ler_sensores entrada_tempo_limite sessao_exemplo))) = 0"
    by (simp_all add: bloco_pontuacao_def objetivo_atingido_def ler_sensores_def
        sessao_exemplo_def estado_inicial_def entrada_tempo_limite_def Let_def)
  show ?thesis
    using tempo_limite_encerra [OF a b] a b c d e
    by (simp add: Let_def)
qed

text \<open>
  When the scoring block completes the session in the very call in which the time limit
  passes, the time limit block runs as well: it takes its completed branch, and the
  session is counted twice.
\<close>

lemma conclusao_com_tempo_limite:
  "status (treinamento (executar_modo_treinamento entrada_tempo_limite sessao_nivel9)) = 2
   \<and> nivel_atual (treinamento (executar_modo_treinamento entrada_tempo_limite sessao_nivel9)) = 10
   \<and> sessoes_concluidas (stats sessao_nivel9) = 0
   \<and> sessoes_concluidas (stats (executar_modo_treinamento entrada_tempo_limite sessao_nivel9)) = 2"
  by (simp add: executar_modo_treinamento_def bloco_cancelar_def bloco_tempo_limite_def
      bloco_pontuacao_def objetivo_atingido_def ler_sensores_def sessao_nivel9_def
      sessao_exemplo_def estado_inicial_def entrada_tempo_limite_def Let_def)

subsection \<open>Monotonicity within a session\<close>





subsection \<open>Sessions in progress\<close>

lemma leds_nivel:
  assumes "nivel_maximo t = 10" and "nivel_atual t < 10"
  shows "leds_em_andamento t = Inr (2 * uint (nivel_atual t))"
proof -
  have "uint (nivel_atual t) < uint (10 :: u8)" using assms(2) by (simp only: word_less_def)
  then have "uint (nivel_atual t) < 10" by simp
  moreover have "(25::int) sdiv 10 = 2" by (simp add: signed_divide_int_def)
  ultimately show ?thesis
    using assms(1) by (simp add: leds_em_andamento_def NUM_PIXELS_def Let_def)
qed

text \<open>
  Claim C10, as the code has it. In every state reached by a run of the program in which
  a session is in progress, \<open>nivel_maximo\<close> is 10 and \<open>1 \<le> nivel_atual < nivel_maximo\<close>.
  Hence the LED count of lines 906-910 is computed without a division by zero (it is
  twice the level), and whenever the time limit block is reached with the status still 1
  (the scoring block of the same call has not just completed the session) and the limit
  has passed, it takes the failed branch.
\<close>

theorem sessao_em_andamento:
  assumes "status (treinamento (executar evs (estado_inicial us))) = 1"
  shows "nivel_maximo (treinamento (executar evs (estado_inicial us))) = 10
     \<and> 1 \<le> nivel_atual (treinamento (executar evs (estado_inicial us)))
     \<and> nivel_atual (treinamento (executar evs (estado_inicial us)))
         < nivel_maximo (treinamento (executar evs (estado_inicial us)))
     \<and> leds_em_andamento (treinamento (executar evs (estado_inicial us)))
         = Inr (2 * uint (nivel_atual (treinamento (executar evs (estado_inicial us)))))
     \<and> (status (treinamento (bloco_pontuacao e
                   (ler_sensores e (executar evs (estado_inicial us))))) = 1
         \<and> 300 \<le> time_us_32 e 829 div 1000000
                    - inicio (treinamento (executar evs (estado_inicial us)))
         \<longrightarrow> status (treinamento (bloco_tempo_limite e (bloco_pontuacao e
                   (ler_sensores e (executar evs (estado_inicial us)))))) = 3)"
proof -
  let ?s = "executar evs (estado_inicial us)"
  let ?s1 = "bloco_pontuacao e (ler_sensores e ?s)"
  have i: "inv_treino ?s" by (rule inv_treino_alcancavel)
  then have a: "nivel_maximo (treinamento ?s) = 10" "1 \<le> nivel_atual (treinamento ?s)"
    "nivel_atual (treinamento ?s) < 10"
    using assms by (simp_all add: inv_treino_def)
  have l: "leds_em_andamento (treinamento ?s) = Inr (2 * uint (nivel_atual (treinamento ?s)))"
    using a(1) a(3) by (rule leds_nivel)
  have "inv_treino (ler_sensores e ?s)" using i by (simp add: inv_treino_ler)
  then have i1: "inv_treino ?s1"
    using assms by (simp add: inv_treino_pontuacao treinamento_ler)
  have t: "status (treinamento ?s1) = 1
         \<and> 300 \<le> time_us_32 e 829 div 1000000 - inicio (treinamento ?s)
         \<longrightarrow> status (treinamento (bloco_tempo_limite e ?s1)) = 3"
    using i1 by (simp add: inv_treino_def status_tempo_limite campos_pontuacao treinamento_ler)
  show ?thesis using a l t by simp
qed

theorem sessao_em_andamento_witness:
  "status (treinamento (executar corrida_exemplo (estado_inicial 0))) = 1
   \<and> nivel_maximo (treinamento (executar corrida_exemplo (estado_inicial 0))) = 10
   \<and> nivel_atual (treinamento (executar corrida_exemplo (estado_inicial 0))) = 1
   \<and> leds_em_andamento (treinamento (executar corrida_exemplo (estado_inicial 0))) = Inr 2
   \<and> 300 \<le> time_us_32 entrada_tempo_limite 829 div 1000000
              - inicio (treinamento (executar corrida_exemplo (estado_inicial 0)))
   \<and> status (treinamento (bloco_tempo_limite entrada_tempo_limite
        (bloco_pontuacao entrada_tempo_limite
          (ler_sensores entrada_tempo_limite (executar corrida_exemplo (estado_inicial 0)))))) = 3"
proof -
  have a: "status (treinamento (executar corrida_exemplo (estado_inicial 0))) = 1"
    by (simp add: corrida_exemplo_sessao sessao_exemplo_def)
  have b: "nivel_atual (treinamento (executar corrida_exemplo (estado_inicial 0))) = 1"
    "inicio (treinamento (executar corrida_exemplo (estado_inicial 0))) = 5"
    by (simp_all add: corrida_exemplo_sessao sessao_exemplo_def)
  have c: "time_us_32 entrada_tempo_limite 829 = 400000000"
    by (simp add: entrada_tempo_limite_def)
  have d: "status (treinamento (bloco_pontuacao entrada_tempo_limite
          (ler_sensores entrada_tempo_limite (executar corrida_exemplo (estado_inicial 0))))) = 1"
    by (simp add: status_bloco treinamento_ler corrida_exemplo_sessao sessao_exemplo_def)
  show ?thesis
    using sessao_em_andamento [of corrida_exemplo 0 entrada_tempo_limite, OF a] a b c d
    by simp
qed

text \<open>
  The time limit block does not test \<open>status\<close> again. A call entered with the session in
  progress at level 9 and 449 points, in which the objective is met and the limit has
  passed, first completes the session in the scoring block (level 10, status 2); the
  time limit block then finds \<open>nivel_atual = nivel_maximo\<close>, takes its completed branch
  and counts the session a second time. So a call entered in progress can take the
  completed branch.
\<close>

theorem tempo_limite_ramo_concluido_counterexample:
  "status (treinamento (executar corrida_nivel9 (estado_inicial 0))) = 1
   \<and> nivel_atual (treinamento (executar corrida_nivel9 (estado_inicial 0))) = 9
   \<and> 300 \<le> time_us_32 entrada_tempo_limite 829 div 1000000
              - inicio (treinamento (executar corrida_nivel9 (estado_inicial 0)))
   \<and> nivel_atual (treinamento (bloco_pontuacao entrada_tempo_limite
        (ler_sensores entrada_tempo_limite (executar corrida_nivel9 (estado_inicial 0))))) = 10
   \<and> nivel_maximo (treinamento (bloco_pontuacao entrada_tempo_limite
        (ler_sensores entrada_tempo_limite (executar corrida_nivel9 (estado_inicial 0))))) = 10
   \<and> status (treinamento (bloco_tempo_limite entrada_tempo_limite
        (bloco_pontuacao entrada_tempo_limite
          (ler_sensores entrada_tempo_limite (executar corrida_nivel9 (estado_inicial 0)))))) = 2
   \<and> status (treinamento (iteracao entrada_tempo_limite
        (executar corrida_nivel9 (estado_inicial 0)))) = 2
   \<and> sessoes_concluidas (stats (iteracao entrada_tempo_limite
        (executar corrida_nivel9 (estado_inicial 0)))) = 2"
  by (simp add: corrida_nivel9_estado)
    (simp add: iteracao_def executar_modo_treinamento_def bloco_cancelar_def
      bloco_tempo_limite_def bloco_pontuacao_def objetivo_atingido_def ler_sensores_def
      sessao_nivel9_def sessao_exemplo_def estado_inicial_def entrada_tempo_limite_def Let_def)

subsection \<open>Mode navigation\<close>

lemma menu_frames:
  "menu_index (executar_modo_monitoramento e s) = menu_index s"
  "menu_index (executar_modo_configuracao e s) = menu_index s"
  "menu_index (executar_modo_treinamento e s) = menu_index s"
  "menu_index (executar_modo_historico e s) = menu_index s"
  "current_param (executar_modo_monitoramento e s) = current_param s"
  "current_param (executar_modo_configuracao e s) = current_param s"
  "current_param (executar_modo_treinamento e s) = current_param s"
  "current_param (executar_modo_historico e s) = current_param s"
         apply (simp add: executar_modo_monitoramento_def ler_sensores_def Let_def)
        apply (simp add: executar_modo_configuracao_def config_next_def config_back_def
      aumentar_def diminuir_def Let_def)
       apply (simp add: executar_modo_treinamento_def ler_sensores_def Let_def
      treino_next_def treino_iniciar_def treino_reiniciar_def bloco_pontuacao_def
      bloco_tempo_limite_def bloco_cancelar_def)
      apply (simp add: executar_modo_historico_def Let_def)
     apply (simp add: executar_modo_monitoramento_def ler_sensores_def Let_def)
    apply (simp add: executar_modo_configuracao_def config_next_def config_back_def
      aumentar_def diminuir_def Let_def)
   apply (simp add: executar_modo_treinamento_def ler_sensores_def Let_def
      treino_next_def treino_iniciar_def treino_reiniciar_def bloco_pontuacao_def
      bloco_tempo_limite_def bloco_cancelar_def)
  apply (simp add: executar_modo_historico_def Let_def)
  done

lemma inv_menu_despachar: "inv_menu s \<Longrightarrow> inv_menu (despachar g ev s)"
  by (auto simp: inv_menu_def despachar_def Let_def smod4_mod)

lemma inv_menu_passo: "inv_menu s \<Longrightarrow> inv_menu (passo s ev)"
proof (cases ev)
  case (Laco e)
  assume "inv_menu s"
  then show ?thesis using Laco by (simp add: inv_menu_def iteracao_def menu_frames)
next
  case (Interrupcao g ev' us)
  assume a: "inv_menu s"
  then have "inv_menu (s\<lparr>last_button_time := us div 1000\<rparr>)" by (simp add: inv_menu_def)
  then show ?thesis using Interrupcao a
    by (simp add: button_callback_def Let_def inv_menu_despachar)
qed

lemma inv_menu_alcancavel: "inv_menu (executar evs (estado_inicial us))"
proof (rule executar_inv)
  show "inv_menu (estado_inicial us)" by (simp add: inv_menu_def estado_inicial_def)
qed (rule inv_menu_passo)

lemma callback_aceito:
  "\<not> us div 1000 - last_button_time s < DEBOUNCE_DELAY_MS \<Longrightarrow>
   button_callback g ev us s = despachar g ev (s\<lparr>last_button_time := us div 1000\<rparr>)"
  by (simp add: button_callback_def Let_def)

lemma despachar_campos:
  "last_button_time (despachar g ev s) = last_button_time s"
  "in_set_mode (despachar BUTTON_NEXT ev s) = in_set_mode s"
  "in_set_mode (despachar BUTTON_BACK ev s) = in_set_mode s"
  by (simp_all add: despachar_def Let_def BUTTON_NEXT_def BUTTON_BACK_def BUTTON_SET_def)

lemma despachar_next:
  "\<not> in_set_mode s \<Longrightarrow> ev AND GPIO_IRQ_EDGE_FALL \<noteq> 0 \<Longrightarrow>
   menu_index (despachar BUTTON_NEXT ev s) = (menu_index s + 1) smod 4"
  by (simp add: despachar_def BUTTON_NEXT_def BUTTON_SET_def)

lemma despachar_back:
  "\<not> in_set_mode s \<Longrightarrow> ev AND GPIO_IRQ_EDGE_FALL \<noteq> 0 \<Longrightarrow>
   menu_index (despachar BUTTON_BACK ev s) = (menu_index s + 3) smod 4"
  by (simp add: despachar_def BUTTON_NEXT_def BUTTON_SET_def BUTTON_BACK_def)

lemma callback_next:
  assumes "\<not> in_set_mode s" and "ev AND GPIO_IRQ_EDGE_FALL \<noteq> 0"
    and "\<not> us div 1000 - last_button_time s < DEBOUNCE_DELAY_MS"
    and "0 \<le> menu_index s"
  shows "menu_index (button_callback BUTTON_NEXT ev us s) = (menu_index s + 1) mod 4
     \<and> \<not> in_set_mode (button_callback BUTTON_NEXT ev us s)
     \<and> last_button_time (button_callback BUTTON_NEXT ev us s) = us div 1000"
  using assms
  by (simp add: callback_aceito despachar_next despachar_campos smod4_mod)

lemma callback_back:
  assumes "\<not> in_set_mode s" and "ev AND GPIO_IRQ_EDGE_FALL \<noteq> 0"
    and "\<not> us div 1000 - last_button_time s < DEBOUNCE_DELAY_MS"
    and "0 \<le> menu_index s"
  shows "menu_index (button_callback BUTTON_BACK ev us s) = (menu_index s + 3) mod 4"
  using assms
  by (simp add: callback_aceito despachar_back despachar_campos smod4_mod)

text \<open>
  Claim C9. In a state reached by a run of the program with no parameter being edited
  (\<open>in_set_mode\<close> false), an accepted falling edge on NEXT sets \<open>menu_index\<close> to
  \<open>(menu_index + 1) mod 4\<close> and one on BACK sets it to \<open>(menu_index + 3) mod 4\<close>. So BACK
  leads from 0 (monitoring) to 3 (history), and four NEXT edges, each accepted, lead back
  to the mode they started from.
\<close>

theorem ciclo_de_modos:
  assumes "s = executar evs (estado_inicial boot)"
    and "\<not> in_set_mode s"
    and "ev AND GPIO_IRQ_EDGE_FALL \<noteq> 0"
    and "\<not> ta div 1000 - last_button_time s < DEBOUNCE_DELAY_MS"
  shows "menu_index (button_callback BUTTON_NEXT ev ta s) = (menu_index s + 1) mod 4
     \<and> menu_index (button_callback BUTTON_BACK ev ta s) = (menu_index s + 3) mod 4
     \<and> (menu_index s = 0 \<longrightarrow> menu_index (button_callback BUTTON_BACK ev ta s) = 3)
     \<and> (\<not> tb div 1000 - ta div 1000 < DEBOUNCE_DELAY_MS
         \<and> \<not> tc div 1000 - tb div 1000 < DEBOUNCE_DELAY_MS
         \<and> \<not> td div 1000 - tc div 1000 < DEBOUNCE_DELAY_MS \<longrightarrow>
         menu_index (button_callback BUTTON_NEXT ev td (button_callback BUTTON_NEXT ev tc
           (button_callback BUTTON_NEXT ev tb (button_callback BUTTON_NEXT ev ta s))))
           = menu_index s)"
proof -
  have m: "0 \<le> menu_index s" "menu_index s < 4"
    using inv_menu_alcancavel [of evs boot] assms(1) by (simp_all add: inv_menu_def)
  note n1 = callback_next [OF assms(2) assms(3) assms(4) m(1)]
  have b: "menu_index (button_callback BUTTON_BACK ev ta s) = (menu_index s + 3) mod 4"
    using assms(2) assms(3) assms(4) m(1) by (rule callback_back)
  have q: "\<not> tb div 1000 - ta div 1000 < DEBOUNCE_DELAY_MS
         \<and> \<not> tc div 1000 - tb div 1000 < DEBOUNCE_DELAY_MS
         \<and> \<not> td div 1000 - tc div 1000 < DEBOUNCE_DELAY_MS \<longrightarrow>
         menu_index (button_callback BUTTON_NEXT ev td (button_callback BUTTON_NEXT ev tc
           (button_callback BUTTON_NEXT ev tb (button_callback BUTTON_NEXT ev ta s))))
           = menu_index s"
  proof (intro impI, elim conjE)
    let ?s1 = "button_callback BUTTON_NEXT ev ta s"
    let ?s2 = "button_callback BUTTON_NEXT ev tb ?s1"
    let ?s3 = "button_callback BUTTON_NEXT ev tc ?s2"
    assume a2: "\<not> tb div 1000 - ta div 1000 < DEBOUNCE_DELAY_MS"
      and a3: "\<not> tc div 1000 - tb div 1000 < DEBOUNCE_DELAY_MS"
      and a4: "\<not> td div 1000 - tc div 1000 < DEBOUNCE_DELAY_MS"
    have p1: "0 \<le> menu_index ?s1" using n1 by simp
    have n2: "menu_index ?s2 = (menu_index ?s1 + 1) mod 4 \<and> \<not> in_set_mode ?s2
       \<and> last_button_time ?s2 = tb div 1000"
      using n1 a2 p1 assms(3) by (intro callback_next) simp_all
    have p2: "0 \<le> menu_index ?s2" using n2 by simp
    have n3: "menu_index ?s3 = (menu_index ?s2 + 1) mod 4 \<and> \<not> in_set_mode ?s3
       \<and> last_button_time ?s3 = tc div 1000"
      using n2 a3 p2 assms(3) by (intro callback_next) simp_all
    have p3: "0 \<le> menu_index ?s3" using n3 by simp
    have n4: "menu_index (button_callback BUTTON_NEXT ev td ?s3) = (menu_index ?s3 + 1) mod 4
       \<and> \<not> in_set_mode (button_callback BUTTON_NEXT ev td ?s3)
       \<and> last_button_time (button_callback BUTTON_NEXT ev td ?s3) = td div 1000"
      using n3 a4 p3 assms(3) by (intro callback_next) simp_all
    have "menu_index (button_callback BUTTON_NEXT ev td ?s3)
        = (((((menu_index s + 1) mod 4 + 1) mod 4 + 1) mod 4) + 1) mod 4"
      using n1 n2 n3 n4 by simp
    also have "\<dots> = menu_index s" using m by presburger
    finally show "menu_index (button_callback BUTTON_NEXT ev td ?s3) = menu_index s" .
  qed
  show ?thesis using n1 b q by simp
qed

theorem ciclo_de_modos_witness:
  "\<not> in_set_mode (executar [] (estado_inicial 0))
   \<and> GPIO_IRQ_EDGE_FALL AND GPIO_IRQ_EDGE_FALL \<noteq> 0
   \<and> \<not> 1000000 div 1000 - last_button_time (executar [] (estado_inicial 0)) < DEBOUNCE_DELAY_MS
   \<and> menu_index (executar [] (estado_inicial 0)) = 0
   \<and> menu_index (button_callback BUTTON_NEXT GPIO_IRQ_EDGE_FALL 1000000
        (executar [] (estado_inicial 0))) = 1
   \<and> menu_index (button_callback BUTTON_BACK GPIO_IRQ_EDGE_FALL 1000000
        (executar [] (estado_inicial 0))) = 3
   \<and> menu_index (button_callback BUTTON_NEXT GPIO_IRQ_EDGE_FALL 4000000
        (button_callback BUTTON_NEXT GPIO_IRQ_EDGE_FALL 3000000
          (button_callback BUTTON_NEXT GPIO_IRQ_EDGE_FALL 2000000
            (button_callback BUTTON_NEXT GPIO_IRQ_EDGE_FALL 1000000
              (executar [] (estado_inicial 0)))))) = 0"
proof -
  have a: "\<not> in_set_mode (executar [] (estado_inicial 0))"
    "menu_index (executar [] (estado_inicial 0)) = 0"
    "last_button_time (executar [] (estado_inicial 0)) = 0"
    by (simp_all add: executar_def estado_inicial_def)
  have b: "GPIO_IRQ_EDGE_FALL AND GPIO_IRQ_EDGE_FALL \<noteq> 0"
    by (simp add: GPIO_IRQ_EDGE_FALL_def)
  have c: "\<not> (1000000::u32) div 1000 - last_button_time (executar [] (estado_inicial 0))
             < DEBOUNCE_DELAY_MS"
    "\<not> (2000000::u32) div 1000 - 1000000 div 1000 < DEBOUNCE_DELAY_MS"
    "\<not> (3000000::u32) div 1000 - 2000000 div 1000 < DEBOUNCE_DELAY_MS"
    "\<not> (4000000::u32) div 1000 - 3000000 div 1000 < DEBOUNCE_DELAY_MS"
    by (simp_all add: a DEBOUNCE_DELAY_MS_def)
  note t = ciclo_de_modos [where evs = "[]" and boot = 0 and tb = 2000000 and tc = 3000000
      and td = 4000000, OF refl a(1) b c(1)]
  show ?thesis using t a b c by simp
qed

subsection \<open>Debounce\<close>

lemma callback_suprimido_iff:
  "(button_callback g ev us s = s) = (us div 1000 - last_button_time s < DEBOUNCE_DELAY_MS)"
proof
  assume eq: "button_callback g ev us s = s"
  show "us div 1000 - last_button_time s < DEBOUNCE_DELAY_MS"
  proof (rule ccontr)
    assume n: "\<not> us div 1000 - last_button_time s < DEBOUNCE_DELAY_MS"
    then have "last_button_time (button_callback g ev us s) = us div 1000"
      by (simp add: callback_aceito despachar_campos)
    then have "us div 1000 - last_button_time s = 0" using eq by simp
    then show False using n by (simp add: DEBOUNCE_DELAY_MS_def)
  qed
next
  assume "us div 1000 - last_button_time s < DEBOUNCE_DELAY_MS"
  then show "button_callback g ev us s = s" by (simp add: button_callback_def Let_def)
qed

text \<open>
  Claim C6, as the code has it. With \<open>now\<close> the timer in milliseconds and all
  differences in \<open>uint32_t\<close> arithmetic: the interrupt handler leaves the state unchanged
  if and only if \<open>now - last_button_time < 200\<close>; when \<open>now - last_button_time \<ge> 200\<close> it
  dispatches the edge with \<open>last_button_time\<close> set to \<open>now\<close>, and a second edge on the same
  pin is suppressed if it comes less than 200 ms after the first and dispatched if it
  comes 200 ms or more after it. The presses that the mode handlers poll (lines 628,
  670, 765, 777, 847, 861 and 949) are accepted only when
  \<open>now - last_button_time > 200\<close>; otherwise the state is unchanged.
\<close>

theorem debounce_por_caminho:
  "(button_callback g ev us s = s) = (us div 1000 - last_button_time s < DEBOUNCE_DELAY_MS)
   \<and> (us div 1000 - last_button_time s \<ge> DEBOUNCE_DELAY_MS \<longrightarrow>
        button_callback g ev us s = despachar g ev (s\<lparr>last_button_time := us div 1000\<rparr>)
        \<and> last_button_time (button_callback g ev us s) = us div 1000
        \<and> button_callback g ev us' (button_callback g ev us s)
            = (if us' div 1000 - us div 1000 < DEBOUNCE_DELAY_MS
               then despachar g ev (s\<lparr>last_button_time := us div 1000\<rparr>)
               else despachar g ev
                      ((despachar g ev (s\<lparr>last_button_time := us div 1000\<rparr>))
                         \<lparr>last_button_time := us' div 1000\<rparr>)))
   \<and> (\<not> gpio_get e BUTTON_NEXT \<longrightarrow>
        config_next e s
          = (if time_us_32 e 627 div 1000 - last_button_time s > DEBOUNCE_DELAY_MS
             then aumentar (current_param s) (s\<lparr>last_button_time := time_us_32 e 627 div 1000\<rparr>)
             else s))
   \<and> (\<not> gpio_get e BUTTON_BACK \<longrightarrow>
        config_back e s
          = (if time_us_32 e 669 div 1000 - last_button_time s > DEBOUNCE_DELAY_MS
             then diminuir (current_param s) (s\<lparr>last_button_time := time_us_32 e 669 div 1000\<rparr>)
             else s))
   \<and> (\<not> time_us_32 e 627 div 1000 - last_button_time s > DEBOUNCE_DELAY_MS \<longrightarrow>
        config_next e s = s)
   \<and> (\<not> time_us_32 e 669 div 1000 - last_button_time s > DEBOUNCE_DELAY_MS \<longrightarrow>
        config_back e s = s)
   \<and> (\<not> time_us_32 e 764 div 1000 - last_button_time s > DEBOUNCE_DELAY_MS \<longrightarrow>
        treino_next e s = s)
   \<and> (\<not> time_us_32 e 776 div 1000 - last_button_time s > DEBOUNCE_DELAY_MS \<longrightarrow>
        treino_iniciar e s = s)
   \<and> (\<not> time_us_32 e 846 div 1000 - last_button_time s > DEBOUNCE_DELAY_MS \<longrightarrow>
        bloco_cancelar e s = s)
   \<and> (\<not> time_us_32 e 860 div 1000 - last_button_time s > DEBOUNCE_DELAY_MS \<longrightarrow>
        treino_reiniciar e s = s)
   \<and> (\<not> time_us_32 e 948 div 1000 - last_button_time s > DEBOUNCE_DELAY_MS \<longrightarrow>
        executar_modo_historico e s = s)"
proof -
  have a: "us div 1000 - last_button_time s \<ge> DEBOUNCE_DELAY_MS \<longrightarrow>
        button_callback g ev us s = despachar g ev (s\<lparr>last_button_time := us div 1000\<rparr>)
        \<and> last_button_time (button_callback g ev us s) = us div 1000
        \<and> button_callback g ev us' (button_callback g ev us s)
            = (if us' div 1000 - us div 1000 < DEBOUNCE_DELAY_MS
               then despachar g ev (s\<lparr>last_button_time := us div 1000\<rparr>)
               else despachar g ev
                      ((despachar g ev (s\<lparr>last_button_time := us div 1000\<rparr>))
                         \<lparr>last_button_time := us' div 1000\<rparr>))"
  proof
    assume "us div 1000 - last_button_time s \<ge> DEBOUNCE_DELAY_MS"
    then have n: "\<not> us div 1000 - last_button_time s < DEBOUNCE_DELAY_MS"
      by (simp add: not_less)
    have c1: "button_callback g ev us s = despachar g ev (s\<lparr>last_button_time := us div 1000\<rparr>)"
      using n by (rule callback_aceito)
    have l1: "last_button_time (button_callback g ev us s) = us div 1000"
      by (simp add: c1 despachar_campos)
    have c2: "button_callback g ev us' (button_callback g ev us s)
            = (if us' div 1000 - us div 1000 < DEBOUNCE_DELAY_MS
               then button_callback g ev us s
               else despachar g ev ((button_callback g ev us s)\<lparr>last_button_time := us' div 1000\<rparr>))"
      using l1 by (simp add: button_callback_def [of g ev us'] Let_def)
    show "button_callback g ev us s = despachar g ev (s\<lparr>last_button_time := us div 1000\<rparr>)
        \<and> last_button_time (button_callback g ev us s) = us div 1000
        \<and> button_callback g ev us' (button_callback g ev us s)
            = (if us' div 1000 - us div 1000 < DEBOUNCE_DELAY_MS
               then despachar g ev (s\<lparr>last_button_time := us div 1000\<rparr>)
               else despachar g ev
                      ((despachar g ev (s\<lparr>last_button_time := us div 1000\<rparr>))
                         \<lparr>last_button_time := us' div 1000\<rparr>))"
      using l1 c2 c1 by simp
  qed
  have b: "(\<not> gpio_get e BUTTON_NEXT \<longrightarrow>
        config_next e s
          = (if time_us_32 e 627 div 1000 - last_button_time s > DEBOUNCE_DELAY_MS
             then aumentar (current_param s) (s\<lparr>last_button_time := time_us_32 e 627 div 1000\<rparr>)
             else s))
   \<and> (\<not> gpio_get e BUTTON_BACK \<longrightarrow>
        config_back e s
          = (if time_us_32 e 669 div 1000 - last_button_time s > DEBOUNCE_DELAY_MS
             then diminuir (current_param s) (s\<lparr>last_button_time := time_us_32 e 669 div 1000\<rparr>)
             else s))"
    by (simp add: config_next_def config_back_def Let_def)
  have c: "(\<not> time_us_32 e 627 div 1000 - last_button_time s > DEBOUNCE_DELAY_MS \<longrightarrow>
        config_next e s = s)
   \<and> (\<not> time_us_32 e 669 div 1000 - last_button_time s > DEBOUNCE_DELAY_MS \<longrightarrow>
        config_back e s = s)
   \<and> (\<not> time_us_32 e 764 div 1000 - last_button_time s > DEBOUNCE_DELAY_MS \<longrightarrow>
        treino_next e s = s)
   \<and> (\<not> time_us_32 e 776 div 1000 - last_button_time s > DEBOUNCE_DELAY_MS \<longrightarrow>
        treino_iniciar e s = s)
   \<and> (\<not> time_us_32 e 846 div 1000 - last_button_time s > DEBOUNCE_DELAY_MS \<longrightarrow>
        bloco_cancelar e s = s)
   \<and> (\<not> time_us_32 e 860 div 1000 - last_button_time s > DEBOUNCE_DELAY_MS \<longrightarrow>
        treino_reiniciar e s = s)
   \<and> (\<not> time_us_32 e 948 div 1000 - last_button_time s > DEBOUNCE_DELAY_MS \<longrightarrow>
        executar_modo_historico e s = s)"
    by (simp add: config_next_def config_back_def treino_next_def treino_iniciar_def
        bloco_cancelar_def treino_reiniciar_def executar_modo_historico_def Let_def)
  show ?thesis using callback_suprimido_iff [of g ev us s] a b c by blast
qed

theorem debounce_por_caminho_witness:
  "DEBOUNCE_DELAY_MS \<le> 1000000 div 1000 - last_button_time (estado_inicial 0)
   \<and> menu_index (button_callback BUTTON_NEXT GPIO_IRQ_EDGE_FALL 1000000 (estado_inicial 0)) = 1
   \<and> menu_index (button_callback BUTTON_NEXT GPIO_IRQ_EDGE_FALL 1199000
        (button_callback BUTTON_NEXT GPIO_IRQ_EDGE_FALL 1000000 (estado_inicial 0))) = 1
   \<and> menu_index (button_callback BUTTON_NEXT GPIO_IRQ_EDGE_FALL 1200000
        (button_callback BUTTON_NEXT GPIO_IRQ_EDGE_FALL 1000000 (estado_inicial 0))) = 2
   \<and> \<not> gpio_get entrada_next_200 BUTTON_NEXT
   \<and> \<not> time_us_32 entrada_next_200 627 div 1000 - last_button_time estado_edicao
          > DEBOUNCE_DELAY_MS
   \<and> config_next entrada_next_200 estado_edicao = estado_edicao"
proof -
  have a: "DEBOUNCE_DELAY_MS \<le> 1000000 div 1000 - last_button_time (estado_inicial 0)"
    by (simp add: estado_inicial_def DEBOUNCE_DELAY_MS_def)
  have b: "(1199000 :: u32) div 1000 - 1000000 div 1000 < DEBOUNCE_DELAY_MS"
    "\<not> (1200000 :: u32) div 1000 - 1000000 div 1000 < DEBOUNCE_DELAY_MS"
    by (simp_all add: DEBOUNCE_DELAY_MS_def)
  have c: "\<not> gpio_get entrada_next_200 BUTTON_NEXT"
    "\<not> time_us_32 entrada_next_200 627 div 1000 - last_button_time estado_edicao
          > DEBOUNCE_DELAY_MS"
    by (simp_all add: entrada_next_200_def estado_edicao_def button_callback_def despachar_def
        estado_inicial_def Let_def DEBOUNCE_DELAY_MS_def BUTTON_NEXT_def BUTTON_SET_def
        GPIO_IRQ_EDGE_FALL_def)
  have d: "menu_index (despachar BUTTON_NEXT GPIO_IRQ_EDGE_FALL
             ((estado_inicial 0)\<lparr>last_button_time := 1000000 div 1000\<rparr>)) = 1"
    "menu_index (despachar BUTTON_NEXT GPIO_IRQ_EDGE_FALL
       ((despachar BUTTON_NEXT GPIO_IRQ_EDGE_FALL
           ((estado_inicial 0)\<lparr>last_button_time := 1000000 div 1000\<rparr>))
          \<lparr>last_button_time := 1200000 div 1000\<rparr>)) = 2"
    by (simp_all add: despachar_def estado_inicial_def BUTTON_NEXT_def BUTTON_SET_def
        GPIO_IRQ_EDGE_FALL_def smod4)
  note t1 = debounce_por_caminho [where g = BUTTON_NEXT and ev = GPIO_IRQ_EDGE_FALL
      and us = 1000000 and us' = 1199000 and s = "estado_inicial 0"
      and e = entrada_next_200]
  note t2 = debounce_por_caminho [where g = BUTTON_NEXT and ev = GPIO_IRQ_EDGE_FALL
      and us = 1000000 and us' = 1200000 and s = "estado_inicial 0"
      and e = entrada_next_200]
  note t3 = debounce_por_caminho [where s = estado_edicao and e = entrada_next_200]
  note acc1 = t1 [THEN conjunct2, THEN conjunct1, rule_format, OF a]
  note acc2 = t2 [THEN conjunct2, THEN conjunct1, rule_format, OF a]
  have e1: "menu_index (button_callback BUTTON_NEXT GPIO_IRQ_EDGE_FALL 1000000 (estado_inicial 0)) = 1"
    using acc1 [THEN conjunct1] d(1) by simp
  have e2: "menu_index (button_callback BUTTON_NEXT GPIO_IRQ_EDGE_FALL 1199000
        (button_callback BUTTON_NEXT GPIO_IRQ_EDGE_FALL 1000000 (estado_inicial 0))) = 1"
    using acc1 [THEN conjunct2, THEN conjunct2] b(1) d(1) by simp
  have e3: "menu_index (button_callback BUTTON_NEXT GPIO_IRQ_EDGE_FALL 1200000
        (button_callback BUTTON_NEXT GPIO_IRQ_EDGE_FALL 1000000 (estado_inicial 0))) = 2"
    using acc2 [THEN conjunct2, THEN conjunct2] b(2) d(2) by simp
  have e4: "config_next entrada_next_200 estado_edicao = estado_edicao"
    using t3 c(2) by blast
  show ?thesis using a c e1 e2 e3 e4 by simp
qed

text \<open>
  The claim as stated fails for a polled press: with parameter editing entered at
  millisecond 1000 and NEXT held low at millisecond 1200, the difference is exactly 200
  and the iteration changes nothing.
\<close>

theorem debounce_sondagem_counterexample:
  "time_us_32 entrada_next_200 627 div 1000 - last_button_time estado_edicao = 200
   \<and> DEBOUNCE_DELAY_MS \<le> time_us_32 entrada_next_200 627 div 1000 - last_button_time estado_edicao
   \<and> in_set_mode estado_edicao \<and> current_param estado_edicao = 0
   \<and> \<not> gpio_get entrada_next_200 BUTTON_NEXT
   \<and> iteracao entrada_next_200 estado_edicao = estado_edicao"
  by (simp add: estado_edicao_def entrada_next_200_def estado_inicial_def button_callback_def
      despachar_def iteracao_def executar_modo_configuracao_def config_next_def config_back_def
      Let_def BUTTON_NEXT_def BUTTON_SET_def BUTTON_BACK_def GPIO_IRQ_EDGE_FALL_def
      DEBOUNCE_DELAY_MS_def)

subsection \<open>Reset of the statistics\<close>

lemma limpar_idempotente:
  "limpar_estatisticas us (limpar_estatisticas us st) = limpar_estatisticas us st"
  by (simp add: limpar_estatisticas_def)

lemma limpar_campos:
  "soma_atencao (limpar_estatisticas us st) = 0"
  "soma_relaxamento (limpar_estatisticas us st) = 0"
  "max_atencao (limpar_estatisticas us st) = 0"
  "max_relaxamento (limpar_estatisticas us st) = 0"
  "amostras (limpar_estatisticas us st) = 0"
  "sessoes_concluidas (limpar_estatisticas us st) = 0"
  "tempo_inicio (limpar_estatisticas us st) = us div 1000000"
  "tempo_ultimo_treino (limpar_estatisticas us st) = tempo_ultimo_treino st"
  by (simp_all add: limpar_estatisticas_def)

text \<open>
  Claim C7 on the code. After a failed session of 395 seconds the statistics hold
  \<open>sessoes_concluidas = 1\<close> and \<open>tempo_ultimo_treino = 395\<close>. The reset gesture in history
  mode (SET and NEXT held low) zeroes \<open>sessoes_concluidas\<close> and stamps \<open>tempo_inicio\<close> with
  the current second, and leaves \<open>tempo_ultimo_treino\<close> at 395.
\<close>

theorem limpar_mantem_ultimo_treino:
  "tempo_ultimo_treino (stats (executar corrida_falha (estado_inicial 0))) = 395
   \<and> sessoes_concluidas (stats (executar corrida_falha (estado_inicial 0))) = 1
   \<and> menu_index (executar corrida_falha (estado_inicial 0)) = 3
   \<and> sessoes_concluidas (stats (iteracao entrada_limpar
        (executar corrida_falha (estado_inicial 0)))) = 0
   \<and> tempo_inicio (stats (iteracao entrada_limpar
        (executar corrida_falha (estado_inicial 0)))) = 402
   \<and> tempo_ultimo_treino (stats (iteracao entrada_limpar
        (executar corrida_falha (estado_inicial 0)))) = 395"
  by (simp add: corrida_falha_estado)
    (simp add: sessao_exemplo_def estado_inicial_def iteracao_def executar_modo_historico_def
      limpar_estatisticas_def entrada_limpar_def Let_def BUTTON_NEXT_def BUTTON_SET_def
      DEBOUNCE_DELAY_MS_def)

subsection \<open>Means of the statistics\<close>

text \<open>
  Claim C8. For every statistics record the two means are computed without error: they
  are the sums divided by \<open>amostras\<close> when \<open>amostras > 0\<close>, and 0 when \<open>amostras = 0\<close>.
  The division that reports a zero divisor never reports one, so the code never
  divides by a zero sample count.
\<close>

theorem medias_sem_divisao_por_zero:
  "medias st =
     Inr (if amostras st > 0
          then (soma_atencao st / real (unat (amostras st)),
                soma_relaxamento st / real (unat (amostras st)))
          else (0, 0))
   \<and> medias st \<noteq> Inl DivisaoPorZero
   \<and> medias (st\<lparr>amostras := 0\<rparr>) = Inr (0, 0)"
  by (simp add: medias_def dividir_def)

end
